theory Spec2Isabelle
  imports Main
begin

section \<open>JavaScript values\<close>

text \<open>
  The script \<^verbatim>\<open>scripts/generate-stats.js\<close> works on the values that
  \<^verbatim>\<open>response.json()\<close> returns and on the object literals it builds from them.
  A value is one of JavaScript's primitives, an array or a plain object (its own
  properties in insertion order, keys distinct). Numbers are modelled as
  doubles with an integer value (\<open>JNum n\<close> is the double \<open>n\<close>, for an integer
  \<open>n\<close> that a double represents), the two infinities and \<open>NaN\<close>; the API's
  counters are such numbers. A number with a fraction is outside the model.
\<close>

datatype jsval =
    JUndefined
  | JNull
  | JBool bool
  | JNum int
  | JNaN
  | JInfinity bool
  | JStr string
  | JArr "jsval list"
  | JObj "(string \<times> jsval) list"

text \<open>Truthiness, as used by \<^verbatim>\<open>x ? a : b\<close>, \<^verbatim>\<open>x || y\<close> and \<^verbatim>\<open>filter\<close>.\<close>

fun truthy :: "jsval \<Rightarrow> bool" where
  "truthy JUndefined = False"
| "truthy JNull = False"
| "truthy (JBool b) = b"
| "truthy (JNum n) = (n \<noteq> 0)"
| "truthy JNaN = False"
| "truthy (JInfinity up) = True"
| "truthy (JStr s) = (s \<noteq> [])"
| "truthy (JArr xs) = True"
| "truthy (JObj kvs) = True"

text \<open>\<^verbatim>\<open>a || b\<close> and \<^verbatim>\<open>a ?? b\<close>.\<close>

definition js_or :: "jsval \<Rightarrow> jsval \<Rightarrow> jsval" where
  "js_or a b = (if truthy a then a else b)"

definition nullish :: "jsval \<Rightarrow> bool" where
  "nullish v = (v = JUndefined \<or> v = JNull)"

definition js_coalesce :: "jsval \<Rightarrow> jsval \<Rightarrow> jsval" where
  "js_coalesce a b = (if nullish a then b else a)"

subsection \<open>Decimal numerals\<close>

definition digit :: "nat \<Rightarrow> char" where
  "digit d = ''0123456789'' ! d"

fun dec :: "nat \<Rightarrow> string" where
  "dec n = (if n < 10 then [digit n] else dec (n div 10) @ [digit (n mod 10)])"

declare dec.simps [simp del]

subsection \<open>Double arithmetic on integers\<close>

text \<open>
  A double keeps 53 significant bits. \<open>shift_of a\<close> is the number of low bits
  of \<open>a\<close> that do not fit; rounding drops them to the nearest multiple, a tie
  going to the even one, and a result of \<open>2^1024\<close> or more is an infinity.
  Integers up to \<open>2^53\<close> in magnitude are kept as they are.
\<close>

fun shift_of :: "nat \<Rightarrow> nat" where
  "shift_of a = (if a < 9007199254740992 then 0 else Suc (shift_of (a div 2)))"

declare shift_of.simps [simp del]

definition round_nat :: "nat \<Rightarrow> nat" where
  "round_nat a =
     (let sh = shift_of a; q = a div 2 ^ sh; r = a mod 2 ^ sh in
      (if 2 ^ sh < 2 * r \<or> (2 * r = 2 ^ sh \<and> odd q) then q + 1 else q) * 2 ^ sh)"

definition double :: "int \<Rightarrow> jsval" where
  "double n =
     (let a = round_nat (nat \<bar>n\<bar>) in
      if 2 ^ 1024 \<le> a then JInfinity (0 < n)
      else JNum (if n < 0 then - int a else int a))"

subsection \<open>The text of a number\<close>

text \<open>
  \<^verbatim>\<open>Number::toString\<close> on an integer: up to \<open>2^53\<close> in magnitude, where
  every integer is a double of its own, the decimal digits. Above, the fewest
  digits \<open>s\<close> such that \<open>s * 10^(n - k)\<close> still rounds to the number, the
  closest such value when there are two (the even \<open>s\<close> on a tie), \<open>k\<close> being
  the number of digits of \<open>s\<close> and \<open>n\<close> the number of digits of the value:
  \<open>s\<close> followed by zeros while \<open>n\<close> is at most 21, the exponent form
  \<^verbatim>\<open>d.ddde+x\<close> otherwise. \<open>shortest x n k\<close> looks for \<open>s\<close> with \<open>k\<close>, \<open>k + 1\<close>,
  ... digits, \<open>n\<close> being the number of digits of \<open>x\<close>, and returns \<open>s\<close> and
  the number of digits of the value found.
\<close>

definition digits_of :: "nat \<Rightarrow> nat" where
  "digits_of a = length (dec a)"

function shortest :: "nat \<Rightarrow> nat \<Rightarrow> nat \<Rightarrow> nat \<times> nat" where
  "shortest x n k =
     (if n \<le> k then (x, n)
      else
        (let p = 10 ^ (n - k);
             lo = x div p;
             below = (round_nat (lo * p) = x);
             above = (round_nat ((lo + 1) * p) = x) in
         if below \<and> (\<not> above \<or> x - lo * p < (lo + 1) * p - x
                         \<or> (x - lo * p = (lo + 1) * p - x \<and> even lo))
         then (lo, n)
         else if above then (if lo + 1 = 10 ^ k then (1, n + 1) else (lo + 1, n))
         else shortest x n (Suc k)))"
  by pat_completeness auto
termination
  by (relation "measure (\<lambda>(x, n, k). n - k)") auto

declare shortest.simps [simp del]

definition exponent_text :: "nat \<times> nat \<Rightarrow> string" where
  "exponent_text sn =
     (let s = dec (fst sn); n = snd sn in
      if n \<le> 21 then s @ replicate (n - length s) (CHR ''0'')
      else if length s = 1 then s @ ''e+'' @ dec (n - 1)
      else take 1 s @ ''.'' @ drop 1 s @ ''e+'' @ dec (n - 1))"

definition number_text :: "int \<Rightarrow> string" where
  "number_text i =
     (let a = nat \<bar>i\<bar> in
      (if i < 0 then ''-'' else []) @
      (if a \<le> 9007199254740992 then dec a else exponent_text (shortest a (digits_of a) 1)))"

subsection \<open>Conversions and the \<^verbatim>\<open>+\<close> operator\<close>

text \<open>
  \<^verbatim>\<open>ToString\<close>: an array joins the strings of its elements with commas, with
  \<^verbatim>\<open>null\<close> and \<^verbatim>\<open>undefined\<close> elements printed as the empty string; a plain
  object prints as \<^verbatim>\<open>[object Object]\<close>.
\<close>

fun join :: "string \<Rightarrow> string list \<Rightarrow> string" where
  "join sep [] = []"
| "join sep [s] = s"
| "join sep (s # t # ss) = s @ sep @ join sep (t # ss)"

fun toString :: "jsval \<Rightarrow> string" where
  "toString JUndefined = ''undefined''"
| "toString JNull = ''null''"
| "toString (JBool b) = (if b then ''true'' else ''false'')"
| "toString (JNum n) = number_text n"
| "toString JNaN = ''NaN''"
| "toString (JInfinity up) = (if up then ''Infinity'' else ''-Infinity'')"
| "toString (JStr s) = s"
| "toString (JArr xs) =
     join '','' (map (\<lambda>x. if x = JUndefined \<or> x = JNull then [] else toString x) xs)"
| "toString (JObj kvs) = ''[object Object]''"

text \<open>
  \<^verbatim>\<open>ToPrimitive\<close>: arrays and plain objects become their string. (A plain
  object here has no property named \<^verbatim>\<open>toString\<close> or \<^verbatim>\<open>valueOf\<close> of its own;
  one that has is outside the model.)
\<close>

fun toPrimitive :: "jsval \<Rightarrow> jsval" where
  "toPrimitive (JArr xs) = JStr (toString (JArr xs))"
| "toPrimitive (JObj kvs) = JStr (toString (JObj kvs))"
| "toPrimitive v = v"

fun is_string :: "jsval \<Rightarrow> bool" where
  "is_string (JStr s) = True"
| "is_string v = False"

text \<open>\<^verbatim>\<open>ToNumber\<close> on the primitives that are not strings.\<close>

fun toNumber :: "jsval \<Rightarrow> jsval" where
  "toNumber JNull = JNum 0"
| "toNumber (JBool b) = JNum (if b then 1 else 0)"
| "toNumber (JNum n) = JNum n"
| "toNumber (JInfinity up) = JInfinity up"
| "toNumber v = JNaN"

text \<open>
  The sum of two numbers: the exact sum rounded to a double; an infinity
  absorbs a finite number, and opposite infinities and \<open>NaN\<close> give \<open>NaN\<close>.
\<close>

fun number_add :: "jsval \<Rightarrow> jsval \<Rightarrow> jsval" where
  "number_add (JNum x) (JNum y) = double (x + y)"
| "number_add (JInfinity s) (JInfinity t) = (if s = t then JInfinity s else JNaN)"
| "number_add (JInfinity s) (JNum y) = JInfinity s"
| "number_add (JNum x) (JInfinity t) = JInfinity t"
| "number_add a b = JNaN"

definition js_add :: "jsval \<Rightarrow> jsval \<Rightarrow> jsval" where
  "js_add a b =
     (let pa = toPrimitive a; pb = toPrimitive b in
      if is_string pa \<or> is_string pb then JStr (toString pa @ toString pb)
      else number_add (toNumber pa) (toNumber pb))"

subsection \<open>Property access\<close>

datatype error =
    Error string
  | TypeError string
  | SyntaxError string

fun message :: "error \<Rightarrow> string" where
  "message (Error m) = m"
| "message (TypeError m) = m"
| "message (SyntaxError m) = m"

text \<open>
  \<^verbatim>\<open>v.k\<close> for the property names the script reads (\<^verbatim>\<open>pushed_at\<close>,
  \<^verbatim>\<open>stargazers_count\<close>, \<^verbatim>\<open>forks_count\<close>, \<^verbatim>\<open>name\<close>, \<^verbatim>\<open>html_url\<close>,
  \<^verbatim>\<open>public_repos\<close>, \<^verbatim>\<open>total_private_repos\<close>, \<^verbatim>\<open>followers\<close>,
  \<^verbatim>\<open>public_members\<close>), none of which is inherited from a prototype: an own
  property of a plain object, \<^verbatim>\<open>undefined\<close> on every other value, and a
  \<^verbatim>\<open>TypeError\<close> on \<^verbatim>\<open>null\<close> and \<^verbatim>\<open>undefined\<close>.
\<close>

fun get :: "jsval \<Rightarrow> string \<Rightarrow> jsval" where
  "get (JObj kvs) k = (case map_of kvs k of Some v \<Rightarrow> v | None \<Rightarrow> JUndefined)"
| "get v k = JUndefined"

definition read_prop :: "jsval \<Rightarrow> string \<Rightarrow> error + jsval" where
  "read_prop v k =
     (if v = JNull then
        Inl (TypeError (''Cannot read properties of null (reading '' @ [CHR 0x27] @ k @ [CHR 0x27] @ '')''))
      else if v = JUndefined then
        Inl (TypeError (''Cannot read properties of undefined (reading '' @ [CHR 0x27] @ k @ [CHR 0x27] @ '')''))
      else Inr (get v k))"

section \<open>Environment and configuration constants\<close>

text \<open>
  What the process reads from outside the script: the two environment
  variables, the directory of the script file (\<^verbatim>\<open>__dirname\<close>, always an
  absolute path), the working directory, and the clock
  (\<^verbatim>\<open>new Date().toISOString()\<close>). Paths are lists of components below the root.
\<close>

type_synonym path = "string list"

record env =
  env_GITHUB_ORG :: "string option"
  env_GITHUB_TOKEN :: "string option"
  dirname :: path
  cwd :: path
  now :: string

text \<open>\<^verbatim>\<open>process.env.GITHUB_ORG || 'abstract-data'\<close>\<close>

definition GITHUB_ORG :: "env \<Rightarrow> string" where
  "GITHUB_ORG env =
     (case env_GITHUB_ORG env of
        Some s \<Rightarrow> if s \<noteq> [] then s else ''abstract-data''
      | None \<Rightarrow> ''abstract-data'')"

text \<open>\<^verbatim>\<open>process.env.GITHUB_TOKEN\<close>: a string, or \<^verbatim>\<open>undefined\<close> when unset.\<close>

definition GITHUB_TOKEN :: "env \<Rightarrow> jsval" where
  "GITHUB_TOKEN env =
     (case env_GITHUB_TOKEN env of Some t \<Rightarrow> JStr t | None \<Rightarrow> JUndefined)"

text \<open>
  \<^verbatim>\<open>{ 'Accept': ..., ...(GITHUB_TOKEN ? { Authorization: `Bearer ${GITHUB_TOKEN}` } : {}) }\<close>
\<close>

definition HEADERS :: "env \<Rightarrow> (string \<times> string) list" where
  "HEADERS env =
     [(''Accept'', ''application/vnd.github+json'')] @
     (if truthy (GITHUB_TOKEN env)
      then [(''Authorization'', ''Bearer '' @ toString (GITHUB_TOKEN env))]
      else [])"

section \<open>The remote API\<close>

record request =
  url :: string
  headers :: "(string \<times> string) list"

text \<open>
  A response carries its status and what \<^verbatim>\<open>response.text()\<close> and
  \<^verbatim>\<open>response.json()\<close> settle to (either may reject: a broken stream, a body
  that is not JSON). \<^verbatim>\<open>fetch\<close> itself rejects on a network failure.
\<close>

record response =
  status :: nat
  text_of :: "error + string"
  json_of :: "error + jsval"

datatype fetch_result = Rejected error | Response response

definition ok :: "response \<Rightarrow> bool" where
  "ok r = (200 \<le> status r \<and> status r \<le> 299)"

text \<open>
  The world outside: the answer to every request, the time value of
  \<^verbatim>\<open>new Date(v)\<close> (\<open>None\<close> for an invalid date), and, for the two
  operations joined by \<^verbatim>\<open>Promise.all\<close>, whether the organization request
  settles before the repository listing does.
\<close>

record world =
  fetch :: "request \<Rightarrow> fetch_result"
  Date_time :: "jsval \<Rightarrow> int option"
  org_settles_first :: bool

text \<open>
  \<^verbatim>\<open>fetchJson\<close> after \<^verbatim>\<open>await fetch(...)\<close>: what the answer to the request for
  \<open>u\<close> is turned into.
\<close>

definition settle :: "string \<Rightarrow> fetch_result \<Rightarrow> error + jsval" where
  "settle u answer =
     (case answer of
        Rejected e \<Rightarrow> Inl e
      | Response r \<Rightarrow>
          if \<not> ok r then
            (case text_of r of
               Inl e \<Rightarrow> Inl e
             | Inr t \<Rightarrow>
                 Inl (Error (''Failed request '' @ u @ '' -> '' @ dec (status r) @ '': '' @ t)))
          else json_of r)"

text \<open>
  \<^verbatim>\<open>fetchJson(url)\<close>, with the request it passes to \<^verbatim>\<open>fetch\<close> made visible next
  to its outcome; \<open>fetchJson\<close> is the outcome alone.
\<close>

definition fetchJson_call :: "env \<Rightarrow> world \<Rightarrow> string \<Rightarrow> request \<times> (error + jsval)" where
  "fetchJson_call env w u =
     (let q = \<lparr>url = u, headers = HEADERS env\<rparr> in (q, settle u (fetch w q)))"

definition fetchJson :: "env \<Rightarrow> world \<Rightarrow> string \<Rightarrow> error + jsval" where
  "fetchJson env w u = snd (fetchJson_call env w u)"

definition perPage :: nat where
  "perPage = 100"

definition orgUrl :: "env \<Rightarrow> string" where
  "orgUrl env = ''https://api.github.com/orgs/'' @ GITHUB_ORG env"

definition reposUrl :: "env \<Rightarrow> nat \<Rightarrow> string" where
  "reposUrl env page =
     ''https://api.github.com/orgs/'' @ GITHUB_ORG env @ ''/repos?per_page='' @ dec perPage
       @ ''&page='' @ dec page @ ''&type=all&sort=updated''"

fun isArray :: "jsval \<Rightarrow> bool" where
  "isArray (JArr xs) = True"
| "isArray v = False"

fun elements :: "jsval \<Rightarrow> jsval list" where
  "elements (JArr xs) = xs"
| "elements v = []"

text \<open>
  The loop of \<^verbatim>\<open>listOrgRepos\<close>, with the list of the requests that its calls
  of \<^verbatim>\<open>fetchJson\<close> have passed to \<^verbatim>\<open>fetch\<close> so far as an extra accumulator. It
  need not return: an API that serves full pages
  forever keeps it running, and then the value is \<open>None\<close>.
\<close>

partial_function (option) listOrgRepos_loop ::
  "env \<Rightarrow> world \<Rightarrow> jsval list \<Rightarrow> nat \<Rightarrow> request list \<Rightarrow> (request list \<times> (error + jsval list)) option"
where
  "listOrgRepos_loop env w repos page reqs =
     (let u = reposUrl env page;
          call = fetchJson_call env w u;
          reqs' = reqs @ [fst call] in
      case snd call of
        Inl e \<Rightarrow> Some (reqs', Inl e)
      | Inr data \<Rightarrow>
          if \<not> isArray data \<or> length (elements data) = 0 then Some (reqs', Inr repos)
          else
            (let repos' = repos @ elements data in
             if length (elements data) < perPage then Some (reqs', Inr repos')
             else listOrgRepos_loop env w repos' (page + 1) reqs'))"

declare listOrgRepos_loop.simps [code]

definition listOrgRepos :: "env \<Rightarrow> world \<Rightarrow> (request list \<times> (error + jsval list)) option" where
  "listOrgRepos env w = listOrgRepos_loop env w [] 1 []"

section \<open>The aggregation routine\<close>

text \<open>
  \<^verbatim>\<open>repos.filter(repo => repo.pushed_at)\<close>: the callback reads a property of
  every element, so a \<^verbatim>\<open>null\<close> element makes it throw.
\<close>

fun filter_pushed :: "jsval list \<Rightarrow> error + jsval list" where
  "filter_pushed [] = Inr []"
| "filter_pushed (repo # rest) =
     (case read_prop repo ''pushed_at'' of
        Inl e \<Rightarrow> Inl e
      | Inr v \<Rightarrow>
          (case filter_pushed rest of
             Inl e \<Rightarrow> Inl e
           | Inr keep \<Rightarrow> Inr (if truthy v then repo # keep else keep)))"

text \<open>
  The comparator \<^verbatim>\<open>(a, b) => new Date(b.pushed_at) - new Date(a.pushed_at)\<close>;
  \<open>None\<close> is \<open>NaN\<close>. It only sees elements that passed the filter, none of
  which is \<^verbatim>\<open>null\<close>, so its property reads cannot throw.
\<close>

definition compare_pushed :: "world \<Rightarrow> jsval \<Rightarrow> jsval \<Rightarrow> int option" where
  "compare_pushed w a b =
     (case (Date_time w (get b ''pushed_at''), Date_time w (get a ''pushed_at'')) of
        (Some tb, Some ta) \<Rightarrow> Some (tb - ta)
      | _ \<Rightarrow> None)"

text \<open>
  \<^verbatim>\<open>Array.prototype.sort\<close> is a stable sort: \<open>a\<close> is moved behind \<open>b\<close> only
  when the comparator's value on \<open>(a, b)\<close> is positive, and \<open>NaN\<close> counts as
  zero. It is modelled by insertion from the right, which yields the one order
  every stable sort yields when the comparator is consistent (here: when all
  the dates are valid); for an inconsistent comparator the language leaves the
  order to the implementation.
\<close>

definition positive :: "int option \<Rightarrow> bool" where
  "positive v = (case v of Some n \<Rightarrow> 0 < n | None \<Rightarrow> False)"

fun insert_sorted :: "('a \<Rightarrow> 'a \<Rightarrow> int option) \<Rightarrow> 'a \<Rightarrow> 'a list \<Rightarrow> 'a list" where
  "insert_sorted cmp a [] = [a]"
| "insert_sorted cmp a (b # bs) =
     (if positive (cmp a b) then b # insert_sorted cmp a bs else a # b # bs)"

definition js_sort :: "('a \<Rightarrow> 'a \<Rightarrow> int option) \<Rightarrow> 'a list \<Rightarrow> 'a list" where
  "js_sort cmp xs = foldr (insert_sorted cmp) xs []"

text \<open>\<^verbatim>\<open>xs[0]\<close>\<close>

fun first :: "jsval list \<Rightarrow> jsval" where
  "first [] = JUndefined"
| "first (x # xs) = x"

text \<open>
  \<^verbatim>\<open>repos.reduce((sum, repo) => sum + (repo[k] || 0), acc)\<close>, the running
  \<^verbatim>\<open>sum\<close> being \<open>acc\<close>.
\<close>

fun reduce_count :: "string \<Rightarrow> jsval \<Rightarrow> jsval list \<Rightarrow> error + jsval" where
  "reduce_count k acc [] = Inr acc"
| "reduce_count k acc (repo # rest) =
     (case read_prop repo k of
        Inl e \<Rightarrow> Inl e
      | Inr v \<Rightarrow> reduce_count k (js_add acc (js_or v (JNum 0))) rest)"

record LatestPushedRepository =
  name :: jsval
  pushedAt :: jsval
  htmlUrl :: jsval

text \<open>
  The object \<^verbatim>\<open>fetchOrgMetrics\<close> returns. \<open>latestPushedRepository = None\<close> is
  \<^verbatim>\<open>null\<close>; \<open>error = None\<close> means the object has no \<^verbatim>\<open>error\<close> key.
\<close>

record OrganizationMetrics =
  organization :: string
  publicRepos :: jsval
  privateRepos :: jsval
  followers :: jsval
  members :: jsval
  totalStars :: jsval
  totalForks :: jsval
  latestPushedRepository :: "LatestPushedRepository option"
  error :: "string option"

text \<open>
  The \<^verbatim>\<open>try\<close> block once both awaited values are there. The first read of
  \<open>org\<close> throws when \<open>org\<close> is \<^verbatim>\<open>null\<close>; the reads after it then cannot.
\<close>

definition aggregate :: "env \<Rightarrow> world \<Rightarrow> jsval \<Rightarrow> jsval list \<Rightarrow> error + OrganizationMetrics" where
  "aggregate env w org repos =
     (case filter_pushed repos of
        Inl e \<Rightarrow> Inl e
      | Inr pushed \<Rightarrow>
          (let latestRepo = first (js_sort (compare_pushed w) pushed) in
           case reduce_count ''stargazers_count'' (JNum 0) repos of
             Inl e \<Rightarrow> Inl e
           | Inr stars \<Rightarrow>
               (case reduce_count ''forks_count'' (JNum 0) repos of
                  Inl e \<Rightarrow> Inl e
                | Inr forks \<Rightarrow>
                    (case read_prop org ''public_repos'' of
                       Inl e \<Rightarrow> Inl e
                     | Inr public_repos \<Rightarrow>
                         Inr \<lparr>organization = GITHUB_ORG env,
                              publicRepos = js_coalesce public_repos (JNum (int (length repos))),
                              privateRepos = js_coalesce (get org ''total_private_repos'') (JNum 0),
                              followers = js_coalesce (get org ''followers'') (JNum 0),
                              members = js_coalesce (get org ''public_members'') (JNum 0),
                              totalStars = stars,
                              totalForks = forks,
                              latestPushedRepository =
                                (if truthy latestRepo
                                 then Some \<lparr>name = get latestRepo ''name'',
                                            pushedAt = get latestRepo ''pushed_at'',
                                            htmlUrl = get latestRepo ''html_url''\<rparr>
                                 else None),
                              error = None\<rparr>))))"

text \<open>The object the \<^verbatim>\<open>catch\<close> block returns.\<close>

definition degraded :: "env \<Rightarrow> error \<Rightarrow> OrganizationMetrics" where
  "degraded env e =
     \<lparr>organization = GITHUB_ORG env,
      publicRepos = JNum 0,
      privateRepos = JNum 0,
      followers = JNum 0,
      members = JNum 0,
      totalStars = JNum 0,
      totalForks = JNum 0,
      latestPushedRepository = None,
      error = Some (message e)\<rparr>"

text \<open>
  \<^verbatim>\<open>await Promise.all([a, b])\<close> for the organization request \<open>a\<close> and the
  listing \<open>b\<close> (\<open>None\<close>: never settles). It rejects as soon as one of the two
  rejects, with the error of the one that rejects first, and otherwise waits
  for both.
\<close>

definition Promise_all :: "bool \<Rightarrow> error + 'a \<Rightarrow> (error + 'b) option \<Rightarrow> (error + 'a \<times> 'b) option" where
  "Promise_all a_first a b =
     (case a of
        Inl ea \<Rightarrow>
          (case b of
             Some (Inl eb) \<Rightarrow> Some (Inl (if a_first then ea else eb))
           | _ \<Rightarrow> Some (Inl ea))
      | Inr x \<Rightarrow>
          (case b of
             None \<Rightarrow> None
           | Some (Inl eb) \<Rightarrow> Some (Inl eb)
           | Some (Inr y) \<Rightarrow> Some (Inr (x, y))))"

datatype log = Log string | Warn string | ErrorLog string error

text \<open>
  \<^verbatim>\<open>fetchOrgMetrics\<close>: what the returned promise settles to (\<open>Inl\<close> would be a
  rejection) and what it printed; \<open>None\<close> when it never settles.
\<close>

definition fetchOrgMetrics :: "env \<Rightarrow> world \<Rightarrow> ((error + OrganizationMetrics) \<times> log list) option" where
  "fetchOrgMetrics env w =
     (case Promise_all (org_settles_first w) (fetchJson env w (orgUrl env))
             (map_option snd (listOrgRepos env w)) of
        None \<Rightarrow> None
      | Some awaited \<Rightarrow>
          (case (case awaited of Inl e \<Rightarrow> Inl e | Inr (org, repos) \<Rightarrow> aggregate env w org repos) of
             Inl e \<Rightarrow>
               Some (Inr (degraded env e),
                     [Warn (''[WARN] Unable to fetch GitHub metrics: '' @ message e)])
           | Inr metrics \<Rightarrow> Some (Inr metrics, [])))"

section \<open>The payload and its serialization\<close>

definition systems :: jsval where
  "systems =
     JArr [JObj [(''name'', JStr ''Quantum Core Labs''),
                 (''status'', JStr ''skunkworks''),
                 (''emphasis'', JStr ''#E7AE59'')],
           JObj [(''name'', JStr ''Campaign Intelligence Grid''),
                 (''status'', JStr ''operational''),
                 (''emphasis'', JStr ''#AC2D21'')]]"

text \<open>The object literal \<^verbatim>\<open>payload\<close> of \<^verbatim>\<open>main\<close>.\<close>

definition payload :: "env \<Rightarrow> OrganizationMetrics \<Rightarrow> jsval" where
  "payload env metrics =
     JObj [(''generatedAt'', JStr (now env)),
           (''systems'', systems),
           (''metrics'',
              JObj [(''repos'', js_add (publicRepos metrics) (privateRepos metrics)),
                    (''followers'', followers metrics),
                    (''members'', members metrics),
                    (''totalStars'', totalStars metrics),
                    (''totalForks'', totalForks metrics),
                    (''latestCommit'',
                       (case latestPushedRepository metrics of
                          Some latest \<Rightarrow> pushedAt latest | None \<Rightarrow> JNull)),
                    (''latestRepository'',
                       (case latestPushedRepository metrics of
                          Some latest \<Rightarrow> name latest | None \<Rightarrow> JNull))]),
           (''sources'',
              JObj [(''github'', JStr (''https://github.com/'' @ GITHUB_ORG env)),
                    (''latestRepository'',
                       (case latestPushedRepository metrics of
                          Some latest \<Rightarrow> htmlUrl latest | None \<Rightarrow> JNull))])]"

text \<open>
  \<^verbatim>\<open>JSON.stringify(value, null, gap)\<close> for a positive \<open>gap\<close> and a value
  that is not \<^verbatim>\<open>undefined\<close> itself (the script serializes an object). A
  property whose value is \<^verbatim>\<open>undefined\<close> is left out of its object;
  \<^verbatim>\<open>undefined\<close> in an array, \<open>NaN\<close> and the infinities are written as
  \<^verbatim>\<open>null\<close>. Strings are
  quoted with the escapes of \<^verbatim>\<open>QuoteJSONString\<close>.
\<close>

definition serialized :: "(string \<times> jsval) list \<Rightarrow> (string \<times> jsval) list" where
  "serialized kvs = filter (\<lambda>kv. snd kv \<noteq> JUndefined) kvs"

definition hex_digit :: "nat \<Rightarrow> char" where
  "hex_digit d = ''0123456789abcdef'' ! d"

definition quote_char :: "char \<Rightarrow> string" where
  "quote_char c =
     (if c = CHR 0x22 then [CHR 0x5C, CHR 0x22]
      else if c = CHR 0x5C then [CHR 0x5C, CHR 0x5C]
      else if c = CHR 0x08 then [CHR 0x5C, CHR ''b'']
      else if c = CHR 0x0C then [CHR 0x5C, CHR ''f'']
      else if c = CHR 0x0A then [CHR 0x5C, CHR ''n'']
      else if c = CHR 0x0D then [CHR 0x5C, CHR ''r'']
      else if c = CHR 0x09 then [CHR 0x5C, CHR ''t'']
      else if (of_char c :: nat) < 32 then
        [CHR 0x5C, CHR ''u'', CHR ''0'', CHR ''0'',
         hex_digit (of_char c div 16), hex_digit (of_char c mod 16)]
      else [c])"

definition quote :: "string \<Rightarrow> string" where
  "quote s = [CHR 0x22] @ concat (map quote_char s) @ [CHR 0x22]"

definition newline :: "nat \<Rightarrow> string" where
  "newline ind = CHR 0x0A # replicate ind (CHR '' '')"

fun stringify_at :: "nat \<Rightarrow> nat \<Rightarrow> jsval \<Rightarrow> string" where
  "stringify_at gap ind JUndefined = ''null''"
| "stringify_at gap ind JNull = ''null''"
| "stringify_at gap ind (JBool b) = (if b then ''true'' else ''false'')"
| "stringify_at gap ind (JNum n) = number_text n"
| "stringify_at gap ind JNaN = ''null''"
| "stringify_at gap ind (JInfinity up) = ''null''"
| "stringify_at gap ind (JStr s) = quote s"
| "stringify_at gap ind (JArr xs) =
     (if xs = [] then ''[]''
      else ''['' @ newline (ind + gap)
           @ join ('','' @ newline (ind + gap)) (map (stringify_at gap (ind + gap)) xs)
           @ newline ind @ '']'')"
| "stringify_at gap ind (JObj kvs) =
     (if serialized kvs = [] then ''{}''
      else ''{'' @ newline (ind + gap)
           @ join ('','' @ newline (ind + gap))
               (concat (map (\<lambda>kv. if snd kv = JUndefined then []
                                   else [quote (fst kv) @ '': ''
                                         @ stringify_at gap (ind + gap) (snd kv)]) kvs))
           @ newline ind @ ''}'')"

definition JSON_stringify :: "jsval \<Rightarrow> nat \<Rightarrow> string" where
  "JSON_stringify v gap = stringify_at gap 0 v"

text \<open>The keys of an object as they appear in its serialization.\<close>

fun written_keys :: "jsval \<Rightarrow> string list" where
  "written_keys (JObj kvs) = map fst (serialized kvs)"
| "written_keys v = []"

text \<open>The keys of all the objects of a value, as they appear in its serialization.\<close>

fun written_keys_deep :: "jsval \<Rightarrow> string list" where
  "written_keys_deep (JObj kvs) =
     concat (map (\<lambda>kv. if snd kv = JUndefined then []
                        else fst kv # written_keys_deep (snd kv)) kvs)"
| "written_keys_deep (JArr xs) = concat (map written_keys_deep xs)"
| "written_keys_deep v = []"

text \<open>
  The documents the script is meant to write, spelled out: an object or an
  array with one member per line, indented by two more spaces than the line it
  opens on, and the text of a value that is neither an object nor an array.
\<close>

fun is_number :: "jsval \<Rightarrow> bool" where
  "is_number (JNum n) = True"
| "is_number JNaN = True"
| "is_number (JInfinity up) = True"
| "is_number v = False"

fun scalar :: "jsval \<Rightarrow> bool" where
  "scalar JUndefined = False"
| "scalar (JArr xs) = False"
| "scalar (JObj kvs) = False"
| "scalar v = True"

fun scalar_text :: "jsval \<Rightarrow> string" where
  "scalar_text (JBool b) = (if b then ''true'' else ''false'')"
| "scalar_text (JNum n) = number_text n"
| "scalar_text (JStr s) = quote s"
| "scalar_text v = ''null''"

definition object_text :: "nat \<Rightarrow> (string \<times> string) list \<Rightarrow> string" where
  "object_text ind ms =
     ''{'' @ newline (ind + 2)
     @ join ('','' @ newline (ind + 2)) (map (\<lambda>m. quote (fst m) @ '': '' @ snd m) ms)
     @ newline ind @ ''}''"

definition array_text :: "nat \<Rightarrow> string list \<Rightarrow> string" where
  "array_text ind xs =
     ''['' @ newline (ind + 2) @ join ('','' @ newline (ind + 2)) xs @ newline ind @ '']''"

definition systems_text :: string where
  "systems_text =
     array_text 2
       [object_text 4 [(''name'', quote ''Quantum Core Labs''),
                       (''status'', quote ''skunkworks''),
                       (''emphasis'', quote ''#E7AE59'')],
        object_text 4 [(''name'', quote ''Campaign Intelligence Grid''),
                       (''status'', quote ''operational''),
                       (''emphasis'', quote ''#AC2D21'')]]"

text \<open>
  The document for the metrics \<open>m\<close>: four top-level members, seven in
  \<^verbatim>\<open>metrics\<close>, two in \<^verbatim>\<open>sources\<close>.
\<close>

definition document_text :: "env \<Rightarrow> OrganizationMetrics \<Rightarrow> string" where
  "document_text env m =
     object_text 0
       [(''generatedAt'', quote (now env)),
        (''systems'', systems_text),
        (''metrics'',
           object_text 2
             [(''repos'', scalar_text (js_add (publicRepos m) (privateRepos m))),
              (''followers'', scalar_text (followers m)),
              (''members'', scalar_text (members m)),
              (''totalStars'', scalar_text (totalStars m)),
              (''totalForks'', scalar_text (totalForks m)),
              (''latestCommit'',
                 scalar_text (case latestPushedRepository m of
                                Some latest \<Rightarrow> pushedAt latest | None \<Rightarrow> JNull)),
              (''latestRepository'',
                 scalar_text (case latestPushedRepository m of
                                Some latest \<Rightarrow> name latest | None \<Rightarrow> JNull))]),
        (''sources'',
           object_text 2
             [(''github'', quote (''https://github.com/'' @ GITHUB_ORG env)),
              (''latestRepository'',
                 scalar_text (case latestPushedRepository m of
                                Some latest \<Rightarrow> htmlUrl latest | None \<Rightarrow> JNull))])]"

text \<open>
  Metrics whose six counters are numbers and whose latest repository, when
  there is one, has strings for its three fields.
\<close>

definition well_typed :: "OrganizationMetrics \<Rightarrow> bool" where
  "well_typed m =
     (is_number (publicRepos m) \<and> is_number (privateRepos m)
      \<and> is_number (followers m) \<and> is_number (members m)
      \<and> is_number (totalStars m) \<and> is_number (totalForks m)
      \<and> (case latestPushedRepository m of
            None \<Rightarrow> True
          | Some latest \<Rightarrow>
              is_string (name latest) \<and> is_string (pushedAt latest) \<and> is_string (htmlUrl latest)))"

section \<open>Paths and the file system\<close>

text \<open>
  \<^verbatim>\<open>path.resolve\<close> and \<^verbatim>\<open>path.join\<close> on component lists. An argument is
  absolute or relative; resolution starts from the working directory and
  restarts at every absolute argument, and \<^verbatim>\<open>..\<close> at the root stays there.
\<close>

fun normalize :: "path \<Rightarrow> path \<Rightarrow> path" where
  "normalize acc [] = rev acc"
| "normalize acc (c # cs) =
     (if c = ''..'' then normalize (drop 1 acc) cs
      else if c = ''.'' \<or> c = [] then normalize acc cs
      else normalize (c # acc) cs)"

datatype segment = Absolute path | Relative path

fun place :: "path \<Rightarrow> segment \<Rightarrow> path" where
  "place base (Absolute p) = p"
| "place base (Relative p) = base @ p"

definition path_resolve :: "path \<Rightarrow> segment list \<Rightarrow> path" where
  "path_resolve wd segs = normalize [] (foldl place wd segs)"

definition path_join :: "path \<Rightarrow> path \<Rightarrow> path" where
  "path_join a b = normalize [] (a @ b)"


definition path_string :: "path \<Rightarrow> string" where
  "path_string p = (if p = [] then ''/'' else concat (map (\<lambda>c. ''/'' @ c) p))"

text \<open>\<^verbatim>\<open>path.resolve(__dirname, '..', 'profile')\<close>\<close>

definition OUTPUT_DIR :: "env \<Rightarrow> path" where
  "OUTPUT_DIR env =
     path_resolve (cwd env) [Absolute (dirname env), Relative [''..''], Relative [''profile'']]"

text \<open>\<^verbatim>\<open>path.join(OUTPUT_DIR, 'stats.json')\<close>\<close>

definition OUTPUT_FILE :: "env \<Rightarrow> path" where
  "OUTPUT_FILE env = path_join (OUTPUT_DIR env) [''stats.json'']"

text \<open>
  The file system: which paths exist, the contents of the files, and which
  \<^verbatim>\<open>mkdirSync\<close> and \<^verbatim>\<open>writeFileSync\<close> calls the system refuses (no permission,
  a read-only or full disk, a directory in the way).
\<close>

record filesystem =
  present :: "path \<Rightarrow> bool"
  contents :: "path \<Rightarrow> string option"
  mkdir_fault :: "path \<Rightarrow> error option"
  write_fault :: "path \<Rightarrow> error option"

definition existsSync :: "filesystem \<Rightarrow> path \<Rightarrow> bool" where
  "existsSync fs p = present fs p"

text \<open>\<^verbatim>\<open>fs.mkdirSync(p, { recursive: true })\<close> creates \<open>p\<close> and its ancestors.\<close>

definition mkdirSync :: "filesystem \<Rightarrow> path \<Rightarrow> error + filesystem" where
  "mkdirSync fs p =
     (case mkdir_fault fs p of
        Some e \<Rightarrow> Inl e
      | None \<Rightarrow> Inr (fs\<lparr>present := (\<lambda>q. present fs q \<or> take (length q) p = q)\<rparr>))"

definition writeFileSync :: "filesystem \<Rightarrow> path \<Rightarrow> string \<Rightarrow> error + filesystem" where
  "writeFileSync fs p s =
     (case write_fault fs p of
        Some e \<Rightarrow> Inl e
      | None \<Rightarrow> Inr (fs\<lparr>present := (present fs)(p := True),
                         contents := (contents fs)(p \<mapsto> s)\<rparr>))"

section \<open>The process\<close>

record process =
  files :: filesystem
  console :: "log list"

text \<open>
  \<^verbatim>\<open>main\<close>: what its promise settles to and the state it leaves; \<open>None\<close> when
  the awaited aggregation never settles.
\<close>

definition main :: "env \<Rightarrow> world \<Rightarrow> process \<Rightarrow> ((error + unit) \<times> process) option" where
  "main env w st =
     (case fetchOrgMetrics env w of
        None \<Rightarrow> None
      | Some (settled, printed) \<Rightarrow>
          (let st1 = st\<lparr>console := console st @ printed\<rparr> in
           case settled of
             Inl e \<Rightarrow> Some (Inl e, st1)
           | Inr metrics \<Rightarrow>
               (let doc = payload env metrics in
                case (if \<not> existsSync (files st1) (OUTPUT_DIR env)
                      then mkdirSync (files st1) (OUTPUT_DIR env)
                      else Inr (files st1)) of
                  Inl e \<Rightarrow> Some (Inl e, st1)
                | Inr fs1 \<Rightarrow>
                    (case writeFileSync fs1 (OUTPUT_FILE env) (JSON_stringify doc 2) of
                       Inl e \<Rightarrow> Some (Inl e, st1\<lparr>files := fs1\<rparr>)
                     | Inr fs2 \<Rightarrow>
                         Some (Inr (),
                               st1\<lparr>files := fs2,
                                   console := console st1 @
                                     [Log (''Generated stats payload -> ''
                                           @ path_string (OUTPUT_FILE env))]\<rparr>)))))"

text \<open>
  The whole script, \<^verbatim>\<open>main().catch(error => { console.error(...); process.exit(1) })\<close>:
  the exit status and the final state. When \<^verbatim>\<open>main\<close> rejects the handler
  exits with status 1 at once. When it fulfils, the process ends with status 0
  as soon as nothing is pending, that is, once the repository listing has
  settled too (it may still be running when the organization request was the
  one that failed). An exit status of \<open>None\<close> means the process never exits.
\<close>

definition run :: "env \<Rightarrow> world \<Rightarrow> process \<Rightarrow> nat option \<times> process" where
  "run env w st =
     (case main env w st of
        None \<Rightarrow> (None, st)
      | Some (Inl e, st') \<Rightarrow>
          (Some 1, st'\<lparr>console := console st' @ [ErrorLog ''[ERROR] generate-stats failed:'' e]\<rparr>)
      | Some (Inr u, st') \<Rightarrow>
          (if listOrgRepos env w = None then None else Some 0, st'))"

section \<open>Mock APIs and the API's contract\<close>

text \<open>
  The properties below are stated for APIs described by what they serve.
  \<open>serves_pages env w n ps\<close>: the world \<open>w\<close> answers the listing requests for
  the pages \<open>n\<close>, \<open>n + 1\<close>, ... with the arrays \<open>ps\<close>, in this order.
\<close>

fun serves_pages :: "env \<Rightarrow> world \<Rightarrow> nat \<Rightarrow> jsval list list \<Rightarrow> bool" where
  "serves_pages env w page [] = True"
| "serves_pages env w page (p # ps) =
     (fetchJson env w (reposUrl env page) = Inr (JArr p) \<and> serves_pages env w (Suc page) ps)"

text \<open>The request for a URL with the script's headers, and the one for a page.\<close>

definition request_to :: "env \<Rightarrow> string \<Rightarrow> request" where
  "request_to env u = \<lparr>url = u, headers = HEADERS env\<rparr>"

definition page_request :: "env \<Rightarrow> nat \<Rightarrow> request" where
  "page_request env page = request_to env (reposUrl env page)"

text \<open>
  The contract of the API (what the two endpoints promise about the fields
  the script reads). A counter is a number, or is missing; a push timestamp is
  \<^verbatim>\<open>null\<close> or missing, or a non-empty string that is a valid date; a
  repository carries its name and its web address.
\<close>

fun count_or_missing :: "jsval \<Rightarrow> bool" where
  "count_or_missing (JNum n) = True"
| "count_or_missing JUndefined = True"
| "count_or_missing JNull = True"
| "count_or_missing v = False"

fun count_of :: "jsval \<Rightarrow> int" where
  "count_of (JNum n) = n"
| "count_of v = 0"

text \<open>A counter, or \<open>d\<close> when it is missing.\<close>

fun count_or :: "int \<Rightarrow> jsval \<Rightarrow> int" where
  "count_or d (JNum n) = n"
| "count_or d v = d"

fun is_object :: "jsval \<Rightarrow> bool" where
  "is_object (JObj kvs) = True"
| "is_object v = False"

definition timestamp :: "world \<Rightarrow> jsval \<Rightarrow> bool" where
  "timestamp w v = (is_string v \<and> truthy v \<and> Date_time w v \<noteq> None)"

definition repo_object :: "world \<Rightarrow> jsval \<Rightarrow> bool" where
  "repo_object w r =
     (is_object r
      \<and> is_string (get r ''name'')
      \<and> is_string (get r ''html_url'')
      \<and> (nullish (get r ''pushed_at'') \<or> timestamp w (get r ''pushed_at''))
      \<and> count_or_missing (get r ''stargazers_count'')
      \<and> count_or_missing (get r ''forks_count''))"

definition org_object :: "jsval \<Rightarrow> bool" where
  "org_object org =
     (is_object org
      \<and> count_or_missing (get org ''public_repos'')
      \<and> count_or_missing (get org ''total_private_repos'')
      \<and> count_or_missing (get org ''followers'')
      \<and> count_or_missing (get org ''public_members''))"


section \<open>Example inputs\<close>

definition example_env :: env where
  "example_env =
     \<lparr>env_GITHUB_ORG = None,
      env_GITHUB_TOKEN = Some ''ghs_example'',
      dirname = [''srv'', ''repo'', ''scripts''],
      cwd = [''srv'', ''repo''],
      now = ''2024-05-01T09:00:00.000Z''\<rparr>"

definition ok_response :: "jsval \<Rightarrow> fetch_result" where
  "ok_response v = Response \<lparr>status = 200, text_of = Inr [], json_of = Inr v\<rparr>"

text \<open>An API given by a table from URLs to answers; nothing else is reachable.\<close>

definition api :: "(string \<times> fetch_result) list \<Rightarrow> request \<Rightarrow> fetch_result" where
  "api table req =
     (case map_of table (url req) of
        Some r \<Rightarrow> r
      | None \<Rightarrow> Rejected (TypeError ''fetch failed''))"

text \<open>The time values of the dates used in the examples, in milliseconds.\<close>

definition example_dates :: "jsval \<Rightarrow> int option" where
  "example_dates =
     map_of [(JStr ''2024-01-01T00:00:00Z'', 1704067200000),
             (JStr ''2024-02-01T00:00:00Z'', 1706745600000),
             (JStr ''2024-03-01T00:00:00Z'', 1709251200000)]"

definition example_repo :: "string \<Rightarrow> jsval \<Rightarrow> int \<Rightarrow> jsval" where
  "example_repo n pushed stars =
     JObj [(''name'', JStr n),
           (''html_url'', JStr (''https://github.com/abstract-data/'' @ n)),
           (''pushed_at'', pushed),
           (''stargazers_count'', JNum stars),
           (''forks_count'', JNum 1)]"

definition example_org :: jsval where
  "example_org =
     JObj [(''login'', JStr ''abstract-data''),
           (''public_repos'', JNum 0),
           (''followers'', JNum 12),
           (''public_members'', JNum 3)]"

definition repo_a :: jsval where
  "repo_a = example_repo ''alpha'' (JStr ''2024-01-01T00:00:00Z'') 5"

definition repo_b :: jsval where
  "repo_b = example_repo ''beta'' (JStr ''2024-03-01T00:00:00Z'') 7"

definition repo_c :: jsval where
  "repo_c = example_repo ''gamma'' JNull 0"

definition repo_d :: jsval where
  "repo_d = example_repo ''delta'' (JStr ''2024-03-01T00:00:00Z'') 2"

text \<open>Three pages of 100, 100 and 37 repositories.\<close>

definition three_pages :: world where
  "three_pages =
     \<lparr>fetch = api [(orgUrl example_env, ok_response example_org),
                   (reposUrl example_env 1, ok_response (JArr (replicate 100 repo_a))),
                   (reposUrl example_env 2, ok_response (JArr (replicate 100 repo_b))),
                   (reposUrl example_env 3, ok_response (JArr (replicate 37 repo_c)))],
      Date_time = example_dates,
      org_settles_first = True\<rparr>"

text \<open>An empty first page.\<close>

definition no_repos :: world where
  "no_repos =
     \<lparr>fetch = api [(orgUrl example_env, ok_response example_org),
                   (reposUrl example_env 1, ok_response (JArr []))],
      Date_time = example_dates,
      org_settles_first = True\<rparr>"

text \<open>A full first page, then a server error on the second.\<close>

definition server_error :: fetch_result where
  "server_error =
     Response \<lparr>status = 500,
               text_of = Inr ''Internal Server Error'',
               json_of = Inl (SyntaxError ''Unexpected token I in JSON at position 0'')\<rparr>"

definition second_page_fails :: world where
  "second_page_fails =
     \<lparr>fetch = api [(orgUrl example_env, ok_response example_org),
                   (reposUrl example_env 1, ok_response (JArr (replicate 100 repo_a))),
                   (reposUrl example_env 2, server_error)],
      Date_time = example_dates,
      org_settles_first = True\<rparr>"

text \<open>
  One short page of five repositories, two of them pushed at the same latest
  time, one never pushed, one without any of the optional fields; the
  organization object omits all its counters.
\<close>

definition repo_bare :: jsval where
  "repo_bare =
     JObj [(''name'', JStr ''epsilon''),
           (''html_url'', JStr ''https://github.com/abstract-data/epsilon'')]"

definition bare_org :: jsval where
  "bare_org = JObj [(''login'', JStr ''abstract-data'')]"

definition one_page :: world where
  "one_page =
     \<lparr>fetch = api [(orgUrl example_env, ok_response bare_org),
                   (reposUrl example_env 1,
                    ok_response (JArr [repo_a, repo_b, repo_c, repo_d, repo_bare]))],
      Date_time = example_dates,
      org_settles_first = True\<rparr>"


text \<open>
  A first page whose body is an object that wraps the rows instead of the
  array itself; and a first page whose body is not JSON.
\<close>

definition counted_org :: jsval where
  "counted_org =
     JObj [(''login'', JStr ''abstract-data''),
           (''public_repos'', JNum 7),
           (''total_private_repos'', JNum 2),
           (''followers'', JNum 12),
           (''public_members'', JNum 3)]"

definition page_not_array :: world where
  "page_not_array =
     \<lparr>fetch = api [(orgUrl example_env, ok_response counted_org),
                   (reposUrl example_env 1,
                    ok_response (JObj [(''total_count'', JNum 2),
                                       (''items'', JArr [repo_a, repo_b])]))],
      Date_time = example_dates,
      org_settles_first = True\<rparr>"

definition not_json :: response where
  "not_json =
     \<lparr>status = 200,
      text_of = Inr ''<html>Bad gateway</html>'',
      json_of = Inl (SyntaxError ''Unexpected token < in JSON at position 0'')\<rparr>"

definition page_not_json :: world where
  "page_not_json =
     \<lparr>fetch = api [(orgUrl example_env, ok_response counted_org),
                   (reposUrl example_env 1, Response not_json)],
      Date_time = example_dates,
      org_settles_first = True\<rparr>"

text \<open>The example environment without a token, and with an empty one.\<close>

definition anonymous_env :: env where
  "anonymous_env = example_env\<lparr>env_GITHUB_TOKEN := None\<rparr>"

definition empty_token_env :: env where
  "empty_token_env = example_env\<lparr>env_GITHUB_TOKEN := Some []\<rparr>"

text \<open>An empty disk that accepts everything, and a read-only one.\<close>

definition empty_disk :: filesystem where
  "empty_disk =
     \<lparr>present = (\<lambda>p. False),
      contents = (\<lambda>p. None),
      mkdir_fault = (\<lambda>p. None),
      write_fault = (\<lambda>p. None)\<rparr>"




text \<open>
  A run from an empty disk and an empty console.
\<close>

definition fresh :: process where
  "fresh = \<lparr>files = empty_disk, console = []\<rparr>"

text \<open>
  An organization with \<open>2^53\<close> public repositories and one private one, and
  no rows.
\<close>

definition huge_org :: jsval where
  "huge_org =
     JObj [(''login'', JStr ''abstract-data''),
           (''public_repos'', JNum 9007199254740992),
           (''total_private_repos'', JNum 1),
           (''followers'', JNum 12),
           (''public_members'', JNum 3)]"

definition huge_counts :: world where
  "huge_counts =
     \<lparr>fetch = api [(orgUrl example_env, ok_response huge_org),
                   (reposUrl example_env 1, ok_response (JArr []))],
      Date_time = example_dates,
      org_settles_first = True\<rparr>"

text \<open>Two repositories, with \<open>2^53\<close> stars and one star.\<close>

definition repo_huge :: jsval where
  "repo_huge = example_repo ''omega'' JNull 9007199254740992"

definition repo_one :: jsval where
  "repo_one = example_repo ''iota'' JNull 1"

definition huge_stars :: world where
  "huge_stars =
     \<lparr>fetch = api [(orgUrl example_env, ok_response counted_org),
                   (reposUrl example_env 1, ok_response (JArr [repo_huge, repo_one]))],
      Date_time = example_dates,
      org_settles_first = True\<rparr>"

text \<open>A single pushed row that carries neither a name nor a web address.\<close>

definition nameless_row :: jsval where
  "nameless_row =
     JObj [(''pushed_at'', JStr ''2024-01-01T00:00:00Z''),
           (''stargazers_count'', JNum 4)]"

definition nameless :: world where
  "nameless =
     \<lparr>fetch = api [(orgUrl example_env, ok_response counted_org),
                   (reposUrl example_env 1, ok_response (JArr [nameless_row]))],
      Date_time = example_dates,
      org_settles_first = True\<rparr>"

text \<open>A full first page, then a second page whose body is an object.\<close>

definition second_page_not_array :: world where
  "second_page_not_array =
     \<lparr>fetch = api [(orgUrl example_env, ok_response counted_org),
                   (reposUrl example_env 1, ok_response (JArr (replicate 100 repo_a))),
                   (reposUrl example_env 2,
                    ok_response (JObj [(''message'', JStr ''no more rows'')]))],
      Date_time = example_dates,
      org_settles_first = True\<rparr>"

section \<open>The pagination loop\<close>

text \<open>The equations that evaluate the example APIs.\<close>

lemmas example_defs =
  fetchJson_def fetchJson_call_def settle_def ok_response_def ok_def api_def request_to_def orgUrl_def reposUrl_def
  GITHUB_ORG_def example_env_def perPage_def dec.simps digit_def Let_def

lemma call_request: "fst (fetchJson_call env w u) = request_to env u"
  by (simp add: fetchJson_call_def request_to_def Let_def)

lemma call_outcome: "snd (fetchJson_call env w u) = fetchJson env w u"
  by (simp add: fetchJson_def)

lemma fetchJson_settle: "fetchJson env w u = settle u (fetch w (request_to env u))"
  by (simp add: fetchJson_def fetchJson_call_def request_to_def Let_def)

lemma loop_full_page:
  assumes "fetchJson env w (reposUrl env page) = Inr (JArr xs)" and "perPage \<le> length xs"
  shows "listOrgRepos_loop env w repos page reqs =
         listOrgRepos_loop env w (repos @ xs) (Suc page) (reqs @ [page_request env page])"
  using assms
  by (subst listOrgRepos_loop.simps) (auto simp: page_request_def call_request call_outcome perPage_def Let_def)

lemma loop_short_page:
  assumes "fetchJson env w (reposUrl env page) = Inr (JArr xs)" and "length xs < perPage"
  shows "listOrgRepos_loop env w repos page reqs =
         Some (reqs @ [page_request env page], Inr (repos @ xs))"
  using assms
  by (subst listOrgRepos_loop.simps) (auto simp: page_request_def call_request call_outcome Let_def)

lemma loop_not_array:
  assumes "fetchJson env w (reposUrl env page) = Inr v" and "\<not> isArray v"
  shows "listOrgRepos_loop env w repos page reqs =
         Some (reqs @ [page_request env page], Inr repos)"
  using assms
  by (subst listOrgRepos_loop.simps) (auto simp: page_request_def call_request call_outcome Let_def)

lemma loop_failure:
  assumes "fetchJson env w (reposUrl env page) = Inl e"
  shows "listOrgRepos_loop env w repos page reqs =
         Some (reqs @ [page_request env page], Inl e)"
  using assms
  by (subst listOrgRepos_loop.simps) (auto simp: page_request_def call_request call_outcome Let_def)

text \<open>Every full page is consumed and the next one requested.\<close>

lemma loop_full_pages:
  assumes "serves_pages env w page ps" and "\<forall>p \<in> set ps. perPage \<le> length p"
  shows "listOrgRepos_loop env w repos page reqs =
         listOrgRepos_loop env w (repos @ concat ps) (page + length ps)
           (reqs @ map (page_request env) [page ..< page + length ps])"
  using assms
proof (induction ps arbitrary: page repos reqs)
  case Nil
  then show ?case by simp
next
  case (Cons p ps)
  have "listOrgRepos_loop env w repos page reqs =
        listOrgRepos_loop env w (repos @ p) (Suc page) (reqs @ [page_request env page])"
    using Cons.prems by (intro loop_full_page) auto
  also have "\<dots> = listOrgRepos_loop env w ((repos @ p) @ concat ps) (Suc page + length ps)
                    ((reqs @ [page_request env page])
                      @ map (page_request env) [Suc page ..< Suc page + length ps])"
    using Cons.prems by (intro Cons.IH) auto
  also have "(reqs @ [page_request env page])
               @ map (page_request env) [Suc page ..< Suc page + length ps]
             = reqs @ map (page_request env) (page # [Suc page ..< Suc page + length ps])"
    by simp
  also have "page # [Suc page ..< Suc page + length ps] = [page ..< page + length (p # ps)]"
    by (subst (2) upt_rec) simp
  finally show ?case by simp
qed

lemma serves_pages_append:
  "serves_pages env w page (ps @ qs) =
     (serves_pages env w page ps \<and> serves_pages env w (page + length ps) qs)"
  by (induction ps arbitrary: page) auto

lemma listing_stops_at:
  assumes "serves_pages env w 1 (full @ [short])"
    and "\<forall>p \<in> set full. perPage \<le> length p"
    and "length short < perPage"
  shows "listOrgRepos env w =
           Some (map (page_request env) [1 ..< length full + 2], Inr (concat full @ short))"
proof -
  have full: "serves_pages env w 1 full"
    and short: "fetchJson env w (reposUrl env (1 + length full)) = Inr (JArr short)"
    using assms(1) by (simp_all add: serves_pages_append)
  have "listOrgRepos env w =
        listOrgRepos_loop env w (concat full) (1 + length full)
          (map (page_request env) [1 ..< 1 + length full])"
    unfolding listOrgRepos_def using loop_full_pages [OF full assms(2), of "[]" "[]"] by simp
  also have "\<dots> = Some (map (page_request env) [1 ..< 1 + length full]
                          @ [page_request env (1 + length full)],
                        Inr (concat full @ short))"
    by (rule loop_short_page [OF short assms(3)])
  also have "map (page_request env) [1 ..< 1 + length full] @ [page_request env (1 + length full)]
             = map (page_request env) [1 ..< length full + 2]"
    by simp
  finally show ?thesis .
qed

text \<open>
  C2. The listing asks for pages of 100 (\<^verbatim>\<open>per_page=100\<close> in every request)
  and stops exactly at the first page with fewer rows than that, an empty page
  included: when the API serves the full pages \<open>full\<close> and then the short page
  \<open>short\<close>, the listing issues one request per page served, for the pages
  \<open>1, ..., length full + 1\<close> in this order, and returns all the rows of all
  these pages.
\<close>

theorem pagination_stops_at_short_page:
  assumes "serves_pages env w 1 (full @ [short])"
    and "\<forall>p \<in> set full. perPage \<le> length p"
    and "length short < perPage"
  shows "listOrgRepos env w =
           Some (map (page_request env) [1 ..< length full + 2], Inr (concat full @ short))
         \<and> (\<forall>n. url (page_request env n) =
                  ''https://api.github.com/orgs/'' @ GITHUB_ORG env
                    @ ''/repos?per_page=100&page='' @ dec n @ ''&type=all&sort=updated'')"
proof -
  have hundred: "dec perPage = ''100''"
    by (simp add: perPage_def dec.simps digit_def)
  show ?thesis
    using listing_stops_at [OF assms]
    by (simp add: page_request_def request_to_def reposUrl_def hundred)
qed

theorem pagination_stops_at_short_page_witness:
  "serves_pages example_env three_pages 1
     ([replicate 100 repo_a, replicate 100 repo_b] @ [replicate 37 repo_c])
   \<and> listOrgRepos example_env three_pages =
       Some ([page_request example_env 1, page_request example_env 2, page_request example_env 3],
             Inr (replicate 100 repo_a @ replicate 100 repo_b @ replicate 37 repo_c))
   \<and> length (replicate 100 repo_a @ replicate 100 repo_b @ replicate 37 repo_c) = 237
   \<and> serves_pages example_env no_repos 1 ([] @ [[]])
   \<and> listOrgRepos example_env no_repos = Some ([page_request example_env 1], Inr [])"
proof -
  have three: "serves_pages example_env three_pages 1
     ([replicate 100 repo_a, replicate 100 repo_b] @ [replicate 37 repo_c])"
    by (simp add: three_pages_def example_defs)
  have full: "\<forall>p \<in> set [replicate 100 repo_a, replicate 100 repo_b]. perPage \<le> length p"
    by (simp add: perPage_def)
  have short: "length (replicate 37 repo_c) < perPage"
    by (simp add: perPage_def)
  have empty: "serves_pages example_env no_repos 1 ([] @ [[]])"
    by (simp add: no_repos_def example_defs)
  have none: "\<forall>p \<in> set ([] :: jsval list list). perPage \<le> length p"
    by simp
  have zero: "length ([] :: jsval list) < perPage"
    by (simp add: perPage_def)
  have upt3: "[1 ..< 4] = [1, 2, 3::nat]" and upt1: "[1 ..< 2] = [1::nat]"
    by (simp_all add: upt_rec)
  have r3: "listOrgRepos example_env three_pages =
       Some ([page_request example_env 1, page_request example_env 2, page_request example_env 3],
             Inr (replicate 100 repo_a @ replicate 100 repo_b @ replicate 37 repo_c))"
    using pagination_stops_at_short_page [OF three full short] by (simp add: upt3 numeral_2_eq_2 numeral_3_eq_3)
  have r1: "listOrgRepos example_env no_repos = Some ([page_request example_env 1], Inr [])"
    using pagination_stops_at_short_page [OF empty none zero] by (simp add: upt1)
  have len: "length (replicate 100 repo_a @ replicate 100 repo_b @ replicate 37 repo_c) = 237"
    by simp
  show ?thesis
    using three r3 len empty r1 by blast
qed

section \<open>Failure of the requests\<close>

lemma listing_fails_at:
  assumes "serves_pages env w 1 full"
    and "\<forall>p \<in> set full. perPage \<le> length p"
    and "fetchJson env w (reposUrl env (Suc (length full))) = Inl e"
  shows "listOrgRepos env w = Some (map (page_request env) [1 ..< length full + 2], Inl e)"
proof -
  have "listOrgRepos env w =
        listOrgRepos_loop env w (concat full) (1 + length full)
          (map (page_request env) [1 ..< 1 + length full])"
    unfolding listOrgRepos_def using loop_full_pages [OF assms(1,2), of "[]" "[]"] by simp
  also have "\<dots> = Some (map (page_request env) [1 ..< 1 + length full]
                          @ [page_request env (1 + length full)], Inl e)"
    using assms(3) by (intro loop_failure) simp
  finally show ?thesis by simp
qed

lemma fetchOrgMetrics_settles_fulfilled:
  "fetchOrgMetrics env w = Some (settled, printed) \<Longrightarrow> \<exists>m. settled = Inr m"
  by (auto simp: fetchOrgMetrics_def split: option.splits sum.splits)

lemma fetchOrgMetrics_caught:
  assumes "Promise_all (org_settles_first w) (fetchJson env w (orgUrl env))
             (map_option snd (listOrgRepos env w)) = Some (Inl e)"
  shows "fetchOrgMetrics env w =
           Some (Inr (degraded env e), [Warn (''[WARN] Unable to fetch GitHub metrics: '' @ message e)])"
  using assms by (simp add: fetchOrgMetrics_def)

text \<open>
  C1. \<^verbatim>\<open>fetchOrgMetrics\<close> never rejects: whenever it settles, it settles to a
  value. Whenever the organization request fails, or a listing request fails
  (the request for the page that follows the full pages \<open>full\<close>), it
  returns a value whose six numeric fields are all 0, whose
  \<^verbatim>\<open>latestPushedRepository\<close> is \<^verbatim>\<open>null\<close> and whose \<^verbatim>\<open>error\<close> field is the
  message of the error that made it fail, the error of one of the failed
  requests, and it has printed exactly one warning, which ends with that
  message.
\<close>

theorem fetchOrgMetrics_degrades_on_failure:
  assumes "fetchJson env w (orgUrl env) = Inl e1
           \<or> (serves_pages env w 1 full \<and> (\<forall>p \<in> set full. perPage \<le> length p)
               \<and> fetchJson env w (reposUrl env (Suc (length full))) = Inl e2)"
  shows "(\<forall>settled printed. fetchOrgMetrics env w = Some (settled, printed) \<longrightarrow> (\<exists>m. settled = Inr m))
         \<and> (\<exists>e m. (fetchJson env w (orgUrl env) = Inl e
                      \<or> (\<exists>reqs. listOrgRepos env w = Some (reqs, Inl e)))
                  \<and> fetchOrgMetrics env w =
                      Some (Inr m, [Warn (''[WARN] Unable to fetch GitHub metrics: '' @ message e)])
                  \<and> publicRepos m = JNum 0 \<and> privateRepos m = JNum 0
                  \<and> followers m = JNum 0 \<and> members m = JNum 0
                  \<and> totalStars m = JNum 0 \<and> totalForks m = JNum 0
                  \<and> latestPushedRepository m = None
                  \<and> error m = Some (message e))"
proof -
  have caught: "\<exists>e. (fetchJson env w (orgUrl env) = Inl e
                      \<or> (\<exists>reqs. listOrgRepos env w = Some (reqs, Inl e)))
                \<and> Promise_all (org_settles_first w) (fetchJson env w (orgUrl env))
                     (map_option snd (listOrgRepos env w)) = Some (Inl e)"
    using assms
  proof
    assume org: "fetchJson env w (orgUrl env) = Inl e1"
    show ?thesis
    proof (cases "listOrgRepos env w")
      case None
      with org show ?thesis by (auto simp: Promise_all_def)
    next
      case (Some listing)
      then obtain reqs r where l: "listOrgRepos env w = Some (reqs, r)" by (cases listing) auto
      show ?thesis
      proof (cases r)
        case (Inl e2')
        with org l show ?thesis by (cases "org_settles_first w") (auto simp: Promise_all_def)
      next
        case (Inr repos)
        with org l show ?thesis by (auto simp: Promise_all_def)
      qed
    qed
  next
    assume "serves_pages env w 1 full \<and> (\<forall>p \<in> set full. perPage \<le> length p)
            \<and> fetchJson env w (reposUrl env (Suc (length full))) = Inl e2"
    then have l: "listOrgRepos env w = Some (map (page_request env) [1 ..< length full + 2], Inl e2)"
      by (intro listing_fails_at) auto
    show ?thesis
    proof (cases "fetchJson env w (orgUrl env)")
      case (Inl e1')
      with l show ?thesis by (cases "org_settles_first w") (auto simp: Promise_all_def)
    next
      case (Inr org)
      with l show ?thesis by (auto simp: Promise_all_def)
    qed
  qed
  then obtain e where e: "fetchJson env w (orgUrl env) = Inl e
                      \<or> (\<exists>reqs. listOrgRepos env w = Some (reqs, Inl e))"
    and p: "Promise_all (org_settles_first w) (fetchJson env w (orgUrl env))
                     (map_option snd (listOrgRepos env w)) = Some (Inl e)"
    by blast
  have never: "\<forall>settled printed. fetchOrgMetrics env w = Some (settled, printed) \<longrightarrow> (\<exists>m. settled = Inr m)"
    using fetchOrgMetrics_settles_fulfilled by blast
  have "fetchOrgMetrics env w =
          Some (Inr (degraded env e), [Warn (''[WARN] Unable to fetch GitHub metrics: '' @ message e)])"
    using p by (rule fetchOrgMetrics_caught)
  moreover have "publicRepos (degraded env e) = JNum 0" "privateRepos (degraded env e) = JNum 0"
    "followers (degraded env e) = JNum 0" "members (degraded env e) = JNum 0"
    "totalStars (degraded env e) = JNum 0" "totalForks (degraded env e) = JNum 0"
    "latestPushedRepository (degraded env e) = None" "error (degraded env e) = Some (message e)"
    by (simp_all add: degraded_def)
  ultimately show ?thesis using e never by blast
qed

theorem fetchOrgMetrics_degrades_on_failure_witness:
  "serves_pages example_env second_page_fails 1 [replicate 100 repo_a]
   \<and> fetchJson example_env second_page_fails (reposUrl example_env 2) =
       Inl (Error ''Failed request https://api.github.com/orgs/abstract-data/repos?per_page=100&page=2&type=all&sort=updated -> 500: Internal Server Error'')
   \<and> (\<exists>m. fetchOrgMetrics example_env second_page_fails =
             Some (Inr m, [Warn ''[WARN] Unable to fetch GitHub metrics: Failed request https://api.github.com/orgs/abstract-data/repos?per_page=100&page=2&type=all&sort=updated -> 500: Internal Server Error''])
          \<and> publicRepos m = JNum 0 \<and> privateRepos m = JNum 0
          \<and> followers m = JNum 0 \<and> members m = JNum 0
          \<and> totalStars m = JNum 0 \<and> totalForks m = JNum 0
          \<and> latestPushedRepository m = None
          \<and> error m = Some ''Failed request https://api.github.com/orgs/abstract-data/repos?per_page=100&page=2&type=all&sort=updated -> 500: Internal Server Error'')"
proof -
  let ?e = "Error ''Failed request https://api.github.com/orgs/abstract-data/repos?per_page=100&page=2&type=all&sort=updated -> 500: Internal Server Error''"
  have first: "serves_pages example_env second_page_fails 1 [replicate 100 repo_a]"
    by (simp add: second_page_fails_def example_defs)
  have full: "\<forall>p \<in> set [replicate 100 repo_a]. perPage \<le> length p"
    by (simp add: perPage_def)
  have second: "fetchJson example_env second_page_fails (reposUrl example_env 2) = Inl ?e"
    by (simp add: second_page_fails_def server_error_def example_defs)
  then have second': "fetchJson example_env second_page_fails
                        (reposUrl example_env (Suc (length [replicate 100 repo_a]))) = Inl ?e"
    by (simp add: numeral_2_eq_2)
  have org: "fetchJson example_env second_page_fails (orgUrl example_env) = Inr example_org"
    by (simp add: second_page_fails_def example_defs)
  have listing: "\<And>reqs e. listOrgRepos example_env second_page_fails = Some (reqs, Inl e) \<Longrightarrow> e = ?e"
    using listing_fails_at [OF first full second'] by simp
  from fetchOrgMetrics_degrades_on_failure
         [of example_env second_page_fails _ "[replicate 100 repo_a]" ?e, OF disjI2]
       first full second'
  obtain e m where
    "fetchJson example_env second_page_fails (orgUrl example_env) = Inl e
       \<or> (\<exists>reqs. listOrgRepos example_env second_page_fails = Some (reqs, Inl e))"
    and r: "fetchOrgMetrics example_env second_page_fails =
          Some (Inr m, [Warn (''[WARN] Unable to fetch GitHub metrics: '' @ message e)])"
       "publicRepos m = JNum 0" "privateRepos m = JNum 0" "followers m = JNum 0"
       "members m = JNum 0" "totalStars m = JNum 0" "totalForks m = JNum 0"
       "latestPushedRepository m = None" "error m = Some (message e)"
    by blast
  then have "e = ?e" using org listing by auto
  with r have "fetchOrgMetrics example_env second_page_fails =
             Some (Inr m, [Warn ''[WARN] Unable to fetch GitHub metrics: Failed request https://api.github.com/orgs/abstract-data/repos?per_page=100&page=2&type=all&sort=updated -> 500: Internal Server Error''])
          \<and> publicRepos m = JNum 0 \<and> privateRepos m = JNum 0
          \<and> followers m = JNum 0 \<and> members m = JNum 0
          \<and> totalStars m = JNum 0 \<and> totalForks m = JNum 0
          \<and> latestPushedRepository m = None
          \<and> error m = Some ''Failed request https://api.github.com/orgs/abstract-data/repos?per_page=100&page=2&type=all&sort=updated -> 500: Internal Server Error''"
    by simp
  then show ?thesis using first second by blast
qed

section \<open>Filtering and summing\<close>

lemma filter_pushed_ok:
  assumes "\<forall>r \<in> set repos. \<not> nullish r"
  shows "filter_pushed repos = Inr (filter (\<lambda>r. truthy (get r ''pushed_at'')) repos)"
  using assms by (induction repos) (auto simp: read_prop_def nullish_def)

lemma reduce_count_ok:
  assumes "\<forall>r \<in> set repos. \<not> nullish r"
  shows "reduce_count k acc repos =
         Inr (foldl (\<lambda>s r. js_add s (js_or (get r k) (JNum 0))) acc repos)"
  using assms by (induction repos arbitrary: acc) (auto simp: read_prop_def nullish_def)

section \<open>The most recently pushed repository\<close>

lemma insert_sorted_not_empty: "insert_sorted cmp a bs \<noteq> []"
  by (cases bs) auto

lemma js_sort_empty: "js_sort cmp xs = [] \<longleftrightarrow> xs = []"
  by (cases xs) (auto simp: js_sort_def insert_sorted_not_empty)





section \<open>The example APIs evaluated\<close>

lemmas example_repos =
  repo_a_def repo_b_def repo_c_def repo_d_def repo_bare_def example_repo_def
  example_org_def bare_org_def

lemma three_pages_org:
  "fetchJson example_env three_pages (orgUrl example_env) = Inr example_org"
  by (simp add: three_pages_def example_defs)

lemma three_pages_listing:
  "listOrgRepos example_env three_pages =
     Some ([page_request example_env 1, page_request example_env 2, page_request example_env 3],
           Inr (replicate 100 repo_a @ replicate 100 repo_b @ replicate 37 repo_c))"
proof -
  have three: "serves_pages example_env three_pages 1
     ([replicate 100 repo_a, replicate 100 repo_b] @ [replicate 37 repo_c])"
    by (simp add: three_pages_def example_defs)
  have full: "\<forall>p \<in> set [replicate 100 repo_a, replicate 100 repo_b]. perPage \<le> length p"
    by (simp add: perPage_def)
  have short: "length (replicate 37 repo_c) < perPage"
    by (simp add: perPage_def)
  have upt3: "[1 ..< 4] = [1, 2, 3::nat]"
    by (simp add: upt_rec)
  show ?thesis
    using listing_stops_at [OF three full short]
    by (simp add: upt3 numeral_2_eq_2 numeral_3_eq_3)
qed

lemma one_page_org:
  "fetchJson example_env one_page (orgUrl example_env) = Inr bare_org"
  by (simp add: one_page_def example_defs)

lemma one_page_listing:
  "listOrgRepos example_env one_page =
     Some ([page_request example_env 1], Inr [repo_a, repo_b, repo_c, repo_d, repo_bare])"
proof -
  have one: "serves_pages example_env one_page 1 ([] @ [[repo_a, repo_b, repo_c, repo_d, repo_bare]])"
    by (simp add: one_page_def example_defs)
  have short: "length [repo_a, repo_b, repo_c, repo_d, repo_bare] < perPage"
    by (simp add: perPage_def)
  have upt1: "[1 ..< 2] = [1::nat]"
    by (simp add: upt_rec)
  show ?thesis
    using listing_stops_at [OF one _ short] by (simp add: upt1)
qed

lemma example_repos_contract:
  "repo_object one_page repo_a" "repo_object one_page repo_b" "repo_object one_page repo_c"
  "repo_object one_page repo_d" "repo_object one_page repo_bare"
  by (simp_all add: repo_object_def timestamp_def nullish_def one_page_def example_dates_def
        example_repos)

section \<open>A successful aggregation\<close>

lemma aggregate_ok:
  assumes "\<forall>r \<in> set repos. \<not> nullish r" and "\<not> nullish org"
  shows "aggregate env w org repos =
     Inr \<lparr>organization = GITHUB_ORG env,
          publicRepos = js_coalesce (get org ''public_repos'') (JNum (int (length repos))),
          privateRepos = js_coalesce (get org ''total_private_repos'') (JNum 0),
          followers = js_coalesce (get org ''followers'') (JNum 0),
          members = js_coalesce (get org ''public_members'') (JNum 0),
          totalStars = foldl (\<lambda>s r. js_add s (js_or (get r ''stargazers_count'') (JNum 0))) (JNum 0) repos,
          totalForks = foldl (\<lambda>s r. js_add s (js_or (get r ''forks_count'') (JNum 0))) (JNum 0) repos,
          latestPushedRepository =
            (if truthy (first (js_sort (compare_pushed w) (filter (\<lambda>r. truthy (get r ''pushed_at'')) repos)))
             then Some \<lparr>name = get (first (js_sort (compare_pushed w) (filter (\<lambda>r. truthy (get r ''pushed_at'')) repos))) ''name'',
                        pushedAt = get (first (js_sort (compare_pushed w) (filter (\<lambda>r. truthy (get r ''pushed_at'')) repos))) ''pushed_at'',
                        htmlUrl = get (first (js_sort (compare_pushed w) (filter (\<lambda>r. truthy (get r ''pushed_at'')) repos))) ''html_url''\<rparr>
             else None),
          error = None\<rparr>"
proof -
  have org: "read_prop org ''public_repos'' = Inr (get org ''public_repos'')"
    using assms(2) by (simp add: read_prop_def nullish_def)
  show ?thesis
    unfolding aggregate_def
    by (simp add: filter_pushed_ok [OF assms(1)] reduce_count_ok [OF assms(1)] org Let_def)
qed

lemma fetchOrgMetrics_succeeds:
  assumes "fetchJson env w (orgUrl env) = Inr org"
    and "listOrgRepos env w = Some (reqs, Inr repos)"
    and "aggregate env w org repos = Inr m"
  shows "fetchOrgMetrics env w = Some (Inr m, [])"
  using assms by (simp add: fetchOrgMetrics_def Promise_all_def)

lemma coalesce_count:
  assumes "count_or_missing v"
  shows "js_coalesce v (JNum d) = JNum (count_or d v)"
  using assms by (cases v) (auto simp: js_coalesce_def nullish_def)

lemma count_or_zero: "count_or 0 v = count_of v"
  by (cases v) auto

lemma repo_object_pushed:
  assumes "repo_object w r"
  shows "truthy (get r ''pushed_at'') \<longleftrightarrow> \<not> nullish (get r ''pushed_at'')"
    and "\<not> nullish (get r ''pushed_at'') \<Longrightarrow> Date_time w (get r ''pushed_at'') \<noteq> None"
    and "truthy r" and "\<not> nullish r"
  using assms by (cases r; auto simp: repo_object_def timestamp_def nullish_def)+





section \<open>Malformed listing pages\<close>

lemma listing_ends_at_non_array:
  assumes "serves_pages env w 1 full"
    and "\<forall>p \<in> set full. perPage \<le> length p"
    and "fetchJson env w (reposUrl env (Suc (length full))) = Inr v"
    and "\<not> isArray v"
  shows "listOrgRepos env w =
           Some (map (page_request env) [1 ..< length full + 2], Inr (concat full))"
proof -
  have "listOrgRepos env w =
        listOrgRepos_loop env w (concat full) (1 + length full)
          (map (page_request env) [1 ..< 1 + length full])"
    unfolding listOrgRepos_def using loop_full_pages [OF assms(1,2), of "[]" "[]"] by simp
  also have "\<dots> = Some (map (page_request env) [1 ..< 1 + length full]
                          @ [page_request env (1 + length full)], Inr (concat full))"
    using assms(3,4) by (intro loop_not_array) simp_all
  finally show ?thesis by simp
qed

lemma fetchOrgMetrics_listing_failed:
  assumes "fetchJson env w (orgUrl env) = Inr org"
    and "listOrgRepos env w = Some (reqs, Inl e)"
  shows "fetchOrgMetrics env w =
           Some (Inr (degraded env e), [Warn (''[WARN] Unable to fetch GitHub metrics: '' @ message e)])"
  using assms by (intro fetchOrgMetrics_caught) (simp add: Promise_all_def)

text \<open>
  C4 as stated fails. When the first listing page answers with status 200 and
  a body that is an object wrapping the rows, the loop's guard
  \<^verbatim>\<open>!Array.isArray(data)\<close> ends the pagination as an empty page would: the
  aggregation succeeds on an empty repository list, prints no warning, and
  returns a value without an \<^verbatim>\<open>error\<close> field whose counters are those of the
  organization, not zero.
\<close>

theorem malformed_page_counterexample:
  "fetchOrgMetrics example_env page_not_array =
     Some (Inr \<lparr>organization = ''abstract-data'',
                publicRepos = JNum 7, privateRepos = JNum 2,
                followers = JNum 12, members = JNum 3,
                totalStars = JNum 0, totalForks = JNum 0,
                latestPushedRepository = None,
                error = None\<rparr>,
           [])"
proof -
  have org: "fetchJson example_env page_not_array (orgUrl example_env) = Inr counted_org"
    by (simp add: page_not_array_def example_defs)
  have page: "fetchJson example_env page_not_array (reposUrl example_env (Suc (length ([] :: jsval list list))))
              = Inr (JObj [(''total_count'', JNum 2), (''items'', JArr [repo_a, repo_b])])"
    by (simp add: page_not_array_def example_defs)
  have listing: "listOrgRepos example_env page_not_array =
                   Some (map (page_request example_env) [1 ..< length ([] :: jsval list list) + 2], Inr (concat []))"
    by (rule listing_ends_at_non_array [OF _ _ page]) simp_all
  have "aggregate example_env page_not_array counted_org [] =
     Inr \<lparr>organization = ''abstract-data'',
                publicRepos = JNum 7, privateRepos = JNum 2,
                followers = JNum 12, members = JNum 3,
                totalStars = JNum 0, totalForks = JNum 0,
                latestPushedRepository = None,
                error = None\<rparr>"
    by (subst aggregate_ok)
       (simp_all add: nullish_def counted_org_def js_coalesce_def js_sort_def GITHUB_ORG_def
          example_env_def)
  with org listing show ?thesis
    by (intro fetchOrgMetrics_succeeds) simp_all
qed

section \<open>Request headers\<close>

lemma loop_requests_headers:
  assumes "listOrgRepos_loop env w repos page reqs = Some y"
  shows "(\<forall>q \<in> set reqs. headers q = hs) \<longrightarrow> HEADERS env = hs \<longrightarrow>
         (\<forall>q \<in> set (fst y). headers q = hs)"
proof (rule listOrgRepos_loop.raw_induct
         [OF _ assms,
          where P = "\<lambda>env w repos page reqs y.
                       (\<forall>q \<in> set reqs. headers q = hs) \<longrightarrow> HEADERS env = hs \<longrightarrow>
                       (\<forall>q \<in> set (fst y). headers q = hs)"],
       goal_cases)
  case (1 loop env w repos page reqs y)
  let ?call = "fetchJson_call env w (reposUrl env page)"
  let ?reqs = "reqs @ [fst ?call]"
  show ?case
  proof (intro impI)
    assume "\<forall>q \<in> set reqs. headers q = hs" and hs: "HEADERS env = hs"
    then have sent: "\<forall>q \<in> set ?reqs. headers q = hs"
      by (simp add: fetchJson_call_def Let_def)
    show "\<forall>q \<in> set (fst y). headers q = hs"
    proof (cases "snd ?call")
      case (Inl e)
      with 1(2) have "y = (?reqs, Inl e)" by (simp add: Let_def)
      with sent show ?thesis by simp
    next
      case (Inr data)
      show ?thesis
      proof (cases "\<not> isArray data \<or> length (elements data) = 0
                    \<or> length (elements data) < perPage")
        case True
        with Inr 1(2) have "fst y = ?reqs" by (auto simp: Let_def split: if_splits)
        with sent show ?thesis by simp
      next
        case False
        with Inr 1(2) have "loop env w (repos @ elements data) (page + 1) ?reqs = Some y"
          by (auto simp: Let_def split: if_splits)
        from 1(1) [OF this] sent hs show ?thesis by simp
      qed
    qed
  qed
qed

lemma listing_requests_headers:
  assumes "listOrgRepos env w = Some (reqs, r)" and "HEADERS env = hs"
  shows "\<forall>q \<in> set reqs. headers q = hs"
  using loop_requests_headers [of env w "[]" 1 "[]" "(reqs, r)" hs] assms
  by (simp add: listOrgRepos_def)

lemma fetchJson_call_sends:
  assumes "HEADERS env = hs"
  shows "fetchJson_call env w u =
           (\<lparr>url = u, headers = hs\<rparr>, settle u (fetch w \<lparr>url = u, headers = hs\<rparr>))"
  using assms by (simp add: fetchJson_call_def Let_def)

lemma HEADERS_without_token:
  assumes "env_GITHUB_TOKEN env = None \<or> env_GITHUB_TOKEN env = Some []"
  shows "HEADERS env = [(''Accept'', ''application/vnd.github+json'')]"
  using assms by (auto simp: HEADERS_def GITHUB_TOKEN_def)

lemma HEADERS_with_token:
  assumes "env_GITHUB_TOKEN env = Some t" and "t \<noteq> []"
  shows "HEADERS env = [(''Accept'', ''application/vnd.github+json''),
                        (''Authorization'', ''Bearer '' @ t)]"
  using assms by (simp add: HEADERS_def GITHUB_TOKEN_def)

text \<open>
  C8. Every call of \<^verbatim>\<open>fetchJson\<close>, the only place where the script calls
  \<^verbatim>\<open>fetch\<close>, passes to \<^verbatim>\<open>fetch\<close> the URL it was given with the headers
  fixed by the environment, and settles on the answer to that very request;
  so do the organization request and every request of the listing. When no
  token is present in the environment (the variable is unset or empty) the
  headers are the \<^verbatim>\<open>Accept\<close> header alone, with no \<^verbatim>\<open>Authorization\<close> header
  at all; when a token \<open>t\<close> is present they are the \<^verbatim>\<open>Accept\<close> header and
  exactly one \<^verbatim>\<open>Authorization\<close> header, with the value \<^verbatim>\<open>Bearer t\<close>.
\<close>

theorem authorization_header_iff_token:
  "(env_GITHUB_TOKEN env = None \<or> env_GITHUB_TOKEN env = Some [] \<longrightarrow>
      (\<forall>u. fetchJson_call env w u =
              (\<lparr>url = u, headers = [(''Accept'', ''application/vnd.github+json'')]\<rparr>,
               settle u (fetch w \<lparr>url = u,
                                  headers = [(''Accept'', ''application/vnd.github+json'')]\<rparr>)))
    \<and> fetchJson env w (orgUrl env) =
        settle (orgUrl env)
          (fetch w \<lparr>url = orgUrl env, headers = [(''Accept'', ''application/vnd.github+json'')]\<rparr>)
    \<and> (\<forall>reqs r. listOrgRepos env w = Some (reqs, r) \<longrightarrow>
          (\<forall>q \<in> set reqs. headers q = [(''Accept'', ''application/vnd.github+json'')])))
   \<and> (\<forall>t. env_GITHUB_TOKEN env = Some t \<and> t \<noteq> [] \<longrightarrow>
      (\<forall>u. fetchJson_call env w u =
              (\<lparr>url = u, headers = [(''Accept'', ''application/vnd.github+json''),
                                    (''Authorization'', ''Bearer '' @ t)]\<rparr>,
               settle u (fetch w \<lparr>url = u,
                                  headers = [(''Accept'', ''application/vnd.github+json''),
                                             (''Authorization'', ''Bearer '' @ t)]\<rparr>)))
    \<and> fetchJson env w (orgUrl env) =
        settle (orgUrl env)
          (fetch w \<lparr>url = orgUrl env,
                    headers = [(''Accept'', ''application/vnd.github+json''),
                               (''Authorization'', ''Bearer '' @ t)]\<rparr>)
    \<and> (\<forall>reqs r. listOrgRepos env w = Some (reqs, r) \<longrightarrow>
          (\<forall>q \<in> set reqs. headers q = [(''Accept'', ''application/vnd.github+json''),
                                       (''Authorization'', ''Bearer '' @ t)])))"
proof (intro conjI allI impI)
  assume none: "env_GITHUB_TOKEN env = None \<or> env_GITHUB_TOKEN env = Some []"
  note hs = HEADERS_without_token [OF none]
  show "fetchJson_call env w u =
              (\<lparr>url = u, headers = [(''Accept'', ''application/vnd.github+json'')]\<rparr>,
               settle u (fetch w \<lparr>url = u,
                                  headers = [(''Accept'', ''application/vnd.github+json'')]\<rparr>))" for u
    using hs by (rule fetchJson_call_sends)
  show "fetchJson env w (orgUrl env) =
        settle (orgUrl env)
          (fetch w \<lparr>url = orgUrl env, headers = [(''Accept'', ''application/vnd.github+json'')]\<rparr>)"
    by (simp add: fetchJson_def fetchJson_call_sends [OF hs])
  show "\<forall>q \<in> set reqs. headers q = [(''Accept'', ''application/vnd.github+json'')]"
    if "listOrgRepos env w = Some (reqs, r)" for reqs r
    using that hs by (rule listing_requests_headers)
next
  fix t
  assume "env_GITHUB_TOKEN env = Some t \<and> t \<noteq> []"
  then have hs: "HEADERS env = [(''Accept'', ''application/vnd.github+json''),
                                (''Authorization'', ''Bearer '' @ t)]"
    by (intro HEADERS_with_token) simp_all
  show "fetchJson_call env w u =
              (\<lparr>url = u, headers = [(''Accept'', ''application/vnd.github+json''),
                                    (''Authorization'', ''Bearer '' @ t)]\<rparr>,
               settle u (fetch w \<lparr>url = u,
                                  headers = [(''Accept'', ''application/vnd.github+json''),
                                             (''Authorization'', ''Bearer '' @ t)]\<rparr>))" for u
    using hs by (rule fetchJson_call_sends)
  show "fetchJson env w (orgUrl env) =
        settle (orgUrl env)
          (fetch w \<lparr>url = orgUrl env,
                    headers = [(''Accept'', ''application/vnd.github+json''),
                               (''Authorization'', ''Bearer '' @ t)]\<rparr>)"
    by (simp add: fetchJson_def fetchJson_call_sends [OF hs])
  show "\<forall>q \<in> set reqs. headers q = [(''Accept'', ''application/vnd.github+json''),
                                       (''Authorization'', ''Bearer '' @ t)]"
    if "listOrgRepos env w = Some (reqs, r)" for reqs r
    using that hs by (rule listing_requests_headers)
qed

theorem authorization_header_iff_token_witness:
  "env_GITHUB_TOKEN example_env = Some ''ghs_example''
   \<and> fetchJson_call example_env three_pages ''https://api.github.com/orgs/abstract-data'' =
       (\<lparr>url = ''https://api.github.com/orgs/abstract-data'',
         headers = [(''Accept'', ''application/vnd.github+json''),
                    (''Authorization'', ''Bearer ghs_example'')]\<rparr>,
        Inr example_org)
   \<and> (\<exists>reqs r. listOrgRepos example_env three_pages = Some (reqs, r)
        \<and> map headers reqs =
            [[(''Accept'', ''application/vnd.github+json''), (''Authorization'', ''Bearer ghs_example'')],
             [(''Accept'', ''application/vnd.github+json''), (''Authorization'', ''Bearer ghs_example'')],
             [(''Accept'', ''application/vnd.github+json''), (''Authorization'', ''Bearer ghs_example'')]])
   \<and> env_GITHUB_TOKEN anonymous_env = None
   \<and> fetchJson_call anonymous_env three_pages ''https://api.github.com/orgs/abstract-data'' =
       (\<lparr>url = ''https://api.github.com/orgs/abstract-data'',
         headers = [(''Accept'', ''application/vnd.github+json'')]\<rparr>,
        Inr example_org)
   \<and> env_GITHUB_TOKEN empty_token_env = Some []
   \<and> fetchJson_call empty_token_env three_pages ''https://api.github.com/orgs/abstract-data'' =
       (\<lparr>url = ''https://api.github.com/orgs/abstract-data'',
         headers = [(''Accept'', ''application/vnd.github+json'')]\<rparr>,
        Inr example_org)"
proof -
  have token: "env_GITHUB_TOKEN example_env = Some ''ghs_example''"
    and none: "env_GITHUB_TOKEN anonymous_env = None"
    and empty: "env_GITHUB_TOKEN empty_token_env = Some []"
    by (simp_all add: example_env_def anonymous_env_def empty_token_env_def)
  have answer: "settle ''https://api.github.com/orgs/abstract-data''
                  (fetch three_pages \<lparr>url = ''https://api.github.com/orgs/abstract-data'', headers = hs\<rparr>)
                = Inr example_org" for hs
    by (simp add: three_pages_def example_defs)
  have a: "fetchJson_call example_env three_pages ''https://api.github.com/orgs/abstract-data'' =
       (\<lparr>url = ''https://api.github.com/orgs/abstract-data'',
         headers = [(''Accept'', ''application/vnd.github+json''),
                    (''Authorization'', ''Bearer ghs_example'')]\<rparr>,
        Inr example_org)"
    using authorization_header_iff_token [of example_env three_pages] token answer by simp
  have "\<forall>q \<in> set [page_request example_env 1, page_request example_env 2, page_request example_env 3].
          headers q = [(''Accept'', ''application/vnd.github+json''),
                       (''Authorization'', ''Bearer ghs_example'')]"
    using authorization_header_iff_token [of example_env three_pages] token three_pages_listing
    by simp
  then have b: "\<exists>reqs r. listOrgRepos example_env three_pages = Some (reqs, r)
        \<and> map headers reqs =
            [[(''Accept'', ''application/vnd.github+json''), (''Authorization'', ''Bearer ghs_example'')],
             [(''Accept'', ''application/vnd.github+json''), (''Authorization'', ''Bearer ghs_example'')],
             [(''Accept'', ''application/vnd.github+json''), (''Authorization'', ''Bearer ghs_example'')]]"
    using three_pages_listing by simp
  have c: "fetchJson_call anonymous_env three_pages ''https://api.github.com/orgs/abstract-data'' =
       (\<lparr>url = ''https://api.github.com/orgs/abstract-data'',
         headers = [(''Accept'', ''application/vnd.github+json'')]\<rparr>,
        Inr example_org)"
    using authorization_header_iff_token [of anonymous_env three_pages] none answer by simp
  have d: "fetchJson_call empty_token_env three_pages ''https://api.github.com/orgs/abstract-data'' =
       (\<lparr>url = ''https://api.github.com/orgs/abstract-data'',
         headers = [(''Accept'', ''application/vnd.github+json'')]\<rparr>,
        Inr example_org)"
    using authorization_header_iff_token [of empty_token_env three_pages] empty answer by simp
  show ?thesis using token none empty a b c d by blast
qed

section \<open>Writing the file and exiting\<close>



lemma main_writes:
  assumes "fetchOrgMetrics env w = Some (Inr m, printed)"
    and "present (files st) (OUTPUT_DIR env) \<or> mkdir_fault (files st) (OUTPUT_DIR env) = None"
    and "write_fault (files st) (OUTPUT_FILE env) = None"
  shows "\<exists>st'. main env w st = Some (Inr (), st')
           \<and> contents (files st') (OUTPUT_FILE env) = Some (JSON_stringify (payload env m) 2)
           \<and> present (files st') (OUTPUT_DIR env)
           \<and> console st' = console st @ printed
                @ [Log (''Generated stats payload -> '' @ path_string (OUTPUT_FILE env))]"
proof (cases "present (files st) (OUTPUT_DIR env)")
  case True
  with assms show ?thesis
    by (simp add: main_def existsSync_def writeFileSync_def Let_def)
next
  case False
  with assms have "mkdir_fault (files st) (OUTPUT_DIR env) = None" by simp
  with False assms show ?thesis
    by (simp add: main_def existsSync_def mkdirSync_def writeFileSync_def Let_def)
qed








section \<open>The output path and the document\<close>






lemma stringify_four:
  assumes "v1 \<noteq> JUndefined" and "v2 \<noteq> JUndefined" and "v3 \<noteq> JUndefined" and "v4 \<noteq> JUndefined"
  shows "stringify_at gap ind (JObj [(k1, v1), (k2, v2), (k3, v3), (k4, v4)]) =
     ''{'' @ newline (ind + gap) @ quote k1 @ '': '' @ stringify_at gap (ind + gap) v1
     @ '','' @ newline (ind + gap) @ quote k2 @ '': '' @ stringify_at gap (ind + gap) v2
     @ '','' @ newline (ind + gap) @ quote k3 @ '': '' @ stringify_at gap (ind + gap) v3
     @ '','' @ newline (ind + gap) @ quote k4 @ '': '' @ stringify_at gap (ind + gap) v4
     @ newline ind @ ''}''"
  using assms by (simp add: serialized_def)

lemma payload_members:
  "payload env m =
     JObj [(''generatedAt'', JStr (now env)),
           (''systems'', get (payload env m) ''systems''),
           (''metrics'', get (payload env m) ''metrics''),
           (''sources'', get (payload env m) ''sources'')]"
  "get (payload env m) ''systems'' \<noteq> JUndefined"
  "get (payload env m) ''metrics'' \<noteq> JUndefined"
  "get (payload env m) ''sources'' \<noteq> JUndefined"
  by (simp_all add: payload_def systems_def)

lemma stringify_string: "stringify_at gap ind (JStr s) = quote s"
  by simp

lemma payload_text:
  "JSON_stringify (payload env m) 2 =
     ''{'' @ newline 2 @ quote ''generatedAt'' @ '': '' @ quote (now env)
     @ '','' @ newline 2 @ quote ''systems'' @ '': ''
     @ stringify_at 2 2 (get (payload env m) ''systems'')
     @ '','' @ newline 2 @ quote ''metrics'' @ '': ''
     @ stringify_at 2 2 (get (payload env m) ''metrics'')
     @ '','' @ newline 2 @ quote ''sources'' @ '': ''
     @ stringify_at 2 2 (get (payload env m) ''sources'')
     @ newline 0 @ ''}''"
proof -
  have "stringify_at 2 0 (JObj [(''generatedAt'', JStr (now env)),
           (''systems'', get (payload env m) ''systems''),
           (''metrics'', get (payload env m) ''metrics''),
           (''sources'', get (payload env m) ''sources'')]) =
     ''{'' @ newline (0 + 2) @ quote ''generatedAt'' @ '': '' @ stringify_at 2 (0 + 2) (JStr (now env))
     @ '','' @ newline (0 + 2) @ quote ''systems'' @ '': ''
     @ stringify_at 2 (0 + 2) (get (payload env m) ''systems'')
     @ '','' @ newline (0 + 2) @ quote ''metrics'' @ '': ''
     @ stringify_at 2 (0 + 2) (get (payload env m) ''metrics'')
     @ '','' @ newline (0 + 2) @ quote ''sources'' @ '': ''
     @ stringify_at 2 (0 + 2) (get (payload env m) ''sources'')
     @ newline 0 @ ''}''"
    by (rule stringify_four) (simp_all add: payload_members(2-4))
  then show ?thesis
    unfolding JSON_stringify_def
    by (subst payload_members(1)) (simp only: add_0 stringify_string)
qed




section \<open>The shape of the payload\<close>

lemma fetchOrgMetrics_cases:
  assumes "fetchOrgMetrics env w = Some (Inr m, printed)"
  shows "(\<exists>e. m = degraded env e)
       \<or> (\<exists>org reqs repos. fetchJson env w (orgUrl env) = Inr org
              \<and> listOrgRepos env w = Some (reqs, Inr repos)
              \<and> aggregate env w org repos = Inr m)"
  using assms
  by (auto simp: fetchOrgMetrics_def Promise_all_def split: option.splits sum.splits if_splits)

lemma set_insert_sorted: "set (insert_sorted cmp a bs) = insert a (set bs)"
  by (induction bs) auto

lemma set_js_sort: "set (js_sort cmp xs) = set xs"
  by (induction xs) (auto simp: js_sort_def set_insert_sorted)

lemma first_in_set: "xs \<noteq> [] \<Longrightarrow> first xs \<in> set xs"
  by (cases xs) auto

lemma is_string_JStr: "is_string v \<Longrightarrow> \<exists>s. v = JStr s"
  by (cases v) auto

lemma aggregate_fields:
  assumes "\<forall>r \<in> set repos. \<not> nullish r" and "\<not> nullish org"
    and "aggregate env w org repos = Inr m"
  shows "publicRepos m = js_coalesce (get org ''public_repos'') (JNum (int (length repos)))"
    and "privateRepos m = js_coalesce (get org ''total_private_repos'') (JNum 0)"
    and "followers m = js_coalesce (get org ''followers'') (JNum 0)"
    and "members m = js_coalesce (get org ''public_members'') (JNum 0)"
    and "totalStars m =
           foldl (\<lambda>s r. js_add s (js_or (get r ''stargazers_count'') (JNum 0))) (JNum 0) repos"
    and "totalForks m =
           foldl (\<lambda>s r. js_add s (js_or (get r ''forks_count'') (JNum 0))) (JNum 0) repos"
    and "latestPushedRepository m =
           (if truthy (first (js_sort (compare_pushed w) (filter (\<lambda>r. truthy (get r ''pushed_at'')) repos)))
            then Some \<lparr>name = get (first (js_sort (compare_pushed w) (filter (\<lambda>r. truthy (get r ''pushed_at'')) repos))) ''name'',
                       pushedAt = get (first (js_sort (compare_pushed w) (filter (\<lambda>r. truthy (get r ''pushed_at'')) repos))) ''pushed_at'',
                       htmlUrl = get (first (js_sort (compare_pushed w) (filter (\<lambda>r. truthy (get r ''pushed_at'')) repos))) ''html_url''\<rparr>
            else None)"
    and "error m = None"
proof -
  have "Inr m = aggregate env w org repos" using assms(3) by simp
  then have m: "m = \<lparr>organization = GITHUB_ORG env,
          publicRepos = js_coalesce (get org ''public_repos'') (JNum (int (length repos))),
          privateRepos = js_coalesce (get org ''total_private_repos'') (JNum 0),
          followers = js_coalesce (get org ''followers'') (JNum 0),
          members = js_coalesce (get org ''public_members'') (JNum 0),
          totalStars = foldl (\<lambda>s r. js_add s (js_or (get r ''stargazers_count'') (JNum 0))) (JNum 0) repos,
          totalForks = foldl (\<lambda>s r. js_add s (js_or (get r ''forks_count'') (JNum 0))) (JNum 0) repos,
          latestPushedRepository =
            (if truthy (first (js_sort (compare_pushed w) (filter (\<lambda>r. truthy (get r ''pushed_at'')) repos)))
             then Some \<lparr>name = get (first (js_sort (compare_pushed w) (filter (\<lambda>r. truthy (get r ''pushed_at'')) repos))) ''name'',
                        pushedAt = get (first (js_sort (compare_pushed w) (filter (\<lambda>r. truthy (get r ''pushed_at'')) repos))) ''pushed_at'',
                        htmlUrl = get (first (js_sort (compare_pushed w) (filter (\<lambda>r. truthy (get r ''pushed_at'')) repos))) ''html_url''\<rparr>
             else None),
          error = None\<rparr>"
    by (simp only: aggregate_ok [OF assms(1,2)] sum.inject)
  show "publicRepos m = js_coalesce (get org ''public_repos'') (JNum (int (length repos)))"
    and "privateRepos m = js_coalesce (get org ''total_private_repos'') (JNum 0)"
    and "followers m = js_coalesce (get org ''followers'') (JNum 0)"
    and "members m = js_coalesce (get org ''public_members'') (JNum 0)"
    and "totalStars m =
           foldl (\<lambda>s r. js_add s (js_or (get r ''stargazers_count'') (JNum 0))) (JNum 0) repos"
    and "totalForks m =
           foldl (\<lambda>s r. js_add s (js_or (get r ''forks_count'') (JNum 0))) (JNum 0) repos"
    and "latestPushedRepository m =
           (if truthy (first (js_sort (compare_pushed w) (filter (\<lambda>r. truthy (get r ''pushed_at'')) repos)))
            then Some \<lparr>name = get (first (js_sort (compare_pushed w) (filter (\<lambda>r. truthy (get r ''pushed_at'')) repos))) ''name'',
                       pushedAt = get (first (js_sort (compare_pushed w) (filter (\<lambda>r. truthy (get r ''pushed_at'')) repos))) ''pushed_at'',
                       htmlUrl = get (first (js_sort (compare_pushed w) (filter (\<lambda>r. truthy (get r ''pushed_at'')) repos))) ''html_url''\<rparr>
            else None)"
    and "error m = None"
    by (simp_all only: m OrganizationMetrics.select_convs)
qed

lemma repo_object_strings:
  assumes "repo_object w r"
  shows "\<exists>n. get r ''name'' = JStr n" and "\<exists>u. get r ''html_url'' = JStr u"
    and "truthy (get r ''pushed_at'') \<Longrightarrow> \<exists>p. get r ''pushed_at'' = JStr p"
proof -
  have "is_string (get r ''name'')" and "is_string (get r ''html_url'')"
    using assms by (simp_all add: repo_object_def)
  then show "\<exists>n. get r ''name'' = JStr n" and "\<exists>u. get r ''html_url'' = JStr u"
    by (simp_all add: is_string_JStr)
  assume "truthy (get r ''pushed_at'')"
  moreover have "nullish (get r ''pushed_at'') \<or> timestamp w (get r ''pushed_at'')"
    using assms by (simp add: repo_object_def)
  ultimately have "is_string (get r ''pushed_at'')"
    by (auto simp: nullish_def timestamp_def)
  then show "\<exists>p. get r ''pushed_at'' = JStr p"
    by (rule is_string_JStr)
qed

lemma aggregate_contract_latest:
  assumes "\<forall>r \<in> set repos. repo_object w r" and "\<not> nullish org"
    and "aggregate env w org repos = Inr m"
  shows "latestPushedRepository m = None
       \<or> (\<exists>n p u. latestPushedRepository m = Some \<lparr>name = JStr n, pushedAt = JStr p, htmlUrl = JStr u\<rparr>)"
proof -
  define pushed where "pushed = filter (\<lambda>r. truthy (get r ''pushed_at'')) repos"
  define latest where "latest = first (js_sort (compare_pushed w) pushed)"
  have objs: "\<forall>r \<in> set repos. \<not> nullish r"
    using assms(1) repo_object_pushed(4) by blast
  have m: "latestPushedRepository m =
             (if truthy latest
              then Some \<lparr>name = get latest ''name'', pushedAt = get latest ''pushed_at'',
                         htmlUrl = get latest ''html_url''\<rparr>
              else None)"
    unfolding latest_def pushed_def by (rule aggregate_fields(7) [OF objs assms(2,3)])
  show ?thesis
  proof (cases "pushed = []")
    case True
    then have "latest = JUndefined" by (simp add: latest_def js_sort_def)
    then have "latestPushedRepository m = None" by (simp only: m truthy.simps if_False)
    then show ?thesis ..
  next
    case False
    then have "latest \<in> set (js_sort (compare_pushed w) pushed)"
      unfolding latest_def by (intro first_in_set) (simp add: js_sort_empty)
    then have "latest \<in> set pushed" by (simp only: set_js_sort)
    then have mem: "latest \<in> set repos" and kept: "truthy (get latest ''pushed_at'')"
      by (simp_all add: pushed_def)
    then have repo: "repo_object w latest" using assms(1) by blast
    from repo_object_strings [OF repo] kept obtain n p u where fields:
      "get latest ''name'' = JStr n" "get latest ''pushed_at'' = JStr p"
      "get latest ''html_url'' = JStr u"
      by blast
    have "truthy latest" using repo by (rule repo_object_pushed(3))
    then have "latestPushedRepository m =
                 Some \<lparr>name = JStr n, pushedAt = JStr p, htmlUrl = JStr u\<rparr>"
      by (simp only: m fields if_True)
    then show ?thesis by blast
  qed
qed

section \<open>Sums of counters\<close>

lemma shift_of_small: "a < 9007199254740992 \<Longrightarrow> shift_of a = 0"
  by (simp add: shift_of.simps)

lemma shift_of_next:
  "9007199254740992 \<le> a \<Longrightarrow> a < 18014398509481984 \<Longrightarrow> shift_of a = Suc 0"
  by (subst shift_of.simps) (simp add: shift_of_small)

lemma round_nat_safe:
  assumes "a \<le> 9007199254740992"
  shows "round_nat a = a"
proof (cases "a < 9007199254740992")
  case True
  then show ?thesis by (simp add: round_nat_def shift_of_small)
next
  case False
  with assms have a: "a = 9007199254740992" by simp
  show ?thesis by (simp add: a round_nat_def shift_of_next)
qed

lemma double_safe:
  assumes "\<bar>n\<bar> \<le> 9007199254740992"
  shows "double n = JNum n"
proof -
  have a: "nat \<bar>n\<bar> \<le> 9007199254740992" using assms by simp
  then have "\<not> (2::nat) ^ 1024 \<le> nat \<bar>n\<bar>" by simp
  then show ?thesis
    unfolding double_def by (simp add: round_nat_safe [OF a] Let_def)
qed

lemma double_rounds: "double 9007199254740993 = JNum 9007199254740992"
proof -
  have "round_nat 9007199254740993 = 9007199254740992"
    by (simp add: round_nat_def shift_of_next)
  then show ?thesis by (simp add: double_def)
qed

lemma double_number: "is_number (double n)"
  by (simp add: double_def Let_def)

lemma number_text_safe:
  "\<bar>n\<bar> \<le> 9007199254740992 \<Longrightarrow>
     number_text n = (if n < 0 then ''-'' else []) @ dec (nat \<bar>n\<bar>)"
proof -
  assume "\<bar>n\<bar> \<le> 9007199254740992"
  then have "nat \<bar>n\<bar> \<le> 9007199254740992" by simp
  then show ?thesis by (simp add: number_text_def Let_def)
qed

lemma add_count:
  assumes "count_or_missing v" and "\<bar>a + count_of v\<bar> \<le> 9007199254740992"
  shows "js_add (JNum a) (js_or v (JNum 0)) = JNum (a + count_of v)"
  using assms by (cases v) (auto simp: js_add_def js_or_def double_safe)

lemma foldl_counts:
  assumes "\<forall>r \<in> set repos. count_or_missing (get r k) \<and> 0 \<le> count_of (get r k)"
    and "0 \<le> a" and "a + (\<Sum>r\<leftarrow>repos. count_of (get r k)) \<le> 9007199254740992"
  shows "foldl (\<lambda>s r. js_add s (js_or (get r k) (JNum 0))) (JNum a) repos =
         JNum (a + (\<Sum>r\<leftarrow>repos. count_of (get r k)))"
  using assms
proof (induction repos arbitrary: a)
  case Nil
  then show ?case by simp
next
  case (Cons r repos)
  have rest: "0 \<le> (\<Sum>r\<leftarrow>repos. count_of (get r k))"
    using Cons.prems(1) by (intro sum_list_nonneg) auto
  have step: "js_add (JNum a) (js_or (get r k) (JNum 0)) = JNum (a + count_of (get r k))"
    using Cons.prems rest by (intro add_count) auto
  have "foldl (\<lambda>s r. js_add s (js_or (get r k) (JNum 0))) (JNum (a + count_of (get r k))) repos
        = JNum (a + count_of (get r k) + (\<Sum>r\<leftarrow>repos. count_of (get r k)))"
    using Cons.prems by (intro Cons.IH) auto
  then show ?case by (simp add: step add.assoc)
qed

lemma add_number:
  assumes "is_number acc" and "count_or_missing v"
  shows "is_number (js_add acc (js_or v (JNum 0)))"
proof -
  have "\<exists>c. js_or v (JNum 0) = JNum c"
    using assms(2) by (cases v) (auto simp: js_or_def)
  then obtain c where v: "js_or v (JNum 0) = JNum c" ..
  show ?thesis
    using assms(1) by (cases acc) (auto simp: v js_add_def double_number)
qed

lemma foldl_number:
  assumes "\<forall>r \<in> set repos. count_or_missing (get r k)" and "is_number acc"
  shows "is_number (foldl (\<lambda>s r. js_add s (js_or (get r k) (JNum 0))) acc repos)"
  using assms by (induction repos arbitrary: acc) (auto simp: add_number)

lemma sum_number:
  assumes "is_number a" and "is_number b"
  shows "is_number (js_add a b)"
  using assms by (cases a; cases b) (auto simp: js_add_def double_number)

lemma number_scalar: "is_number v \<Longrightarrow> scalar v"
  by (cases v) auto

lemma short_page_listing:
  assumes "fetchJson env w (reposUrl env 1) = Inr (JArr rows)" and "length rows < perPage"
  shows "listOrgRepos env w = Some ([page_request env 1], Inr rows)"
proof (cases "rows = []")
  case True
  with assms show ?thesis
    unfolding listOrgRepos_def
    by (subst listOrgRepos_loop.simps)
       (simp add: Let_def call_request call_outcome page_request_def)
next
  case False
  with assms show ?thesis
    unfolding listOrgRepos_def
    by (subst listOrgRepos_loop.simps)
       (simp add: Let_def call_request call_outcome page_request_def)
qed

lemma huge_stars_org:
  "fetchJson example_env huge_stars (orgUrl example_env) = Inr counted_org"
  by (simp add: huge_stars_def example_defs)

lemma huge_stars_listing:
  "listOrgRepos example_env huge_stars = Some ([page_request example_env 1], Inr [repo_huge, repo_one])"
  by (rule short_page_listing) (simp_all add: huge_stars_def example_defs perPage_def)

lemma huge_repos_contract:
  "repo_object w repo_huge" "repo_object w repo_one"
  by (simp_all add: repo_object_def repo_huge_def repo_one_def example_repo_def nullish_def)

text \<open>
  C6 as stated fails. The running sum is a JavaScript number, a double: with
  a repository of \<open>2^53\<close> stars followed by one of a single star, the second
  addition rounds \<open>2^53 + 1\<close> back to \<open>2^53\<close>, and \<^verbatim>\<open>totalStars\<close> is
  \<open>9007199254740992\<close> where the sum of the counters is \<open>9007199254740993\<close>.
\<close>

theorem totals_rounding_counterexample:
  "repo_object huge_stars repo_huge \<and> repo_object huge_stars repo_one
   \<and> get repo_huge ''stargazers_count'' = JNum 9007199254740992
   \<and> get repo_one ''stargazers_count'' = JNum 1
   \<and> count_of (get repo_huge ''stargazers_count'') + count_of (get repo_one ''stargazers_count'')
       = 9007199254740993
   \<and> fetchOrgMetrics example_env huge_stars =
       Some (Inr \<lparr>organization = ''abstract-data'',
                  publicRepos = JNum 7, privateRepos = JNum 2,
                  followers = JNum 12, members = JNum 3,
                  totalStars = JNum 9007199254740992, totalForks = JNum 2,
                  latestPushedRepository = None,
                  error = None\<rparr>,
             [])"
proof -
  have stars: "get repo_huge ''stargazers_count'' = JNum 9007199254740992"
    "get repo_one ''stargazers_count'' = JNum 1"
    "count_of (get repo_huge ''stargazers_count'') + count_of (get repo_one ''stargazers_count'')
       = 9007199254740993"
    by (simp_all add: repo_huge_def repo_one_def example_repo_def)
  have "aggregate example_env huge_stars counted_org [repo_huge, repo_one] =
     Inr \<lparr>organization = ''abstract-data'',
                  publicRepos = JNum 7, privateRepos = JNum 2,
                  followers = JNum 12, members = JNum 3,
                  totalStars = JNum 9007199254740992, totalForks = JNum 2,
                  latestPushedRepository = None,
                  error = None\<rparr>"
    by (subst aggregate_ok)
       (simp_all add: nullish_def counted_org_def js_coalesce_def js_sort_def GITHUB_ORG_def
          example_env_def repo_huge_def repo_one_def example_repo_def js_or_def js_add_def
          double_rounds double_safe)
  with huge_stars_org huge_stars_listing
  have "fetchOrgMetrics example_env huge_stars =
       Some (Inr \<lparr>organization = ''abstract-data'',
                  publicRepos = JNum 7, privateRepos = JNum 2,
                  followers = JNum 12, members = JNum 3,
                  totalStars = JNum 9007199254740992, totalForks = JNum 2,
                  latestPushedRepository = None,
                  error = None\<rparr>,
             [])"
    by (intro fetchOrgMetrics_succeeds) simp_all
  with stars huge_repos_contract show ?thesis by blast
qed

lemma totals_of_contract:
  assumes "\<forall>r \<in> set repos. repo_object w r" and "\<not> nullish org"
    and "aggregate env w org repos = Inr m"
    and "\<forall>r \<in> set repos. 0 \<le> count_of (get r ''stargazers_count'')
                          \<and> 0 \<le> count_of (get r ''forks_count'')"
    and "(\<Sum>r\<leftarrow>repos. count_of (get r ''stargazers_count'')) \<le> 9007199254740992"
    and "(\<Sum>r\<leftarrow>repos. count_of (get r ''forks_count'')) \<le> 9007199254740992"
  shows "totalStars m = JNum (\<Sum>r\<leftarrow>repos. count_of (get r ''stargazers_count''))"
    and "totalForks m = JNum (\<Sum>r\<leftarrow>repos. count_of (get r ''forks_count''))"
proof -
  have objs: "\<forall>r \<in> set repos. \<not> nullish r"
    using assms(1) repo_object_pushed(4) by blast
  have stars: "\<forall>r \<in> set repos. count_or_missing (get r ''stargazers_count'')
                 \<and> 0 \<le> count_of (get r ''stargazers_count'')"
    and forks: "\<forall>r \<in> set repos. count_or_missing (get r ''forks_count'')
                 \<and> 0 \<le> count_of (get r ''forks_count'')"
    using assms(1,4) by (simp_all add: repo_object_def)
  show "totalStars m = JNum (\<Sum>r\<leftarrow>repos. count_of (get r ''stargazers_count''))"
    using aggregate_fields(5) [OF objs assms(2,3)] foldl_counts [OF stars, of 0] assms(5)
    by simp
  show "totalForks m = JNum (\<Sum>r\<leftarrow>repos. count_of (get r ''forks_count''))"
    using aggregate_fields(6) [OF objs assms(2,3)] foldl_counts [OF forks, of 0] assms(6)
    by simp
qed

text \<open>
  C6, amended. Let the organization request answer with a value that is not
  \<^verbatim>\<open>null\<close> and the listing return rows that keep the API's contract, with
  counters that are not negative and whose two sums do not exceed \<open>2^53\<close>.
  Then the aggregation succeeds, \<^verbatim>\<open>totalStars\<close> is
  the sum of the \<^verbatim>\<open>stargazers_count\<close> of the rows and \<^verbatim>\<open>totalForks\<close> the sum of
  their \<^verbatim>\<open>forks_count\<close>, a missing counter counting as 0.
\<close>

theorem totals_are_sums_of_counts:
  assumes "fetchJson env w (orgUrl env) = Inr org" and "\<not> nullish org"
    and "listOrgRepos env w = Some (reqs, Inr repos)" and "\<forall>r \<in> set repos. repo_object w r"
    and "\<forall>r \<in> set repos. 0 \<le> count_of (get r ''stargazers_count'')
                          \<and> 0 \<le> count_of (get r ''forks_count'')"
    and "(\<Sum>r\<leftarrow>repos. count_of (get r ''stargazers_count'')) \<le> 9007199254740992"
    and "(\<Sum>r\<leftarrow>repos. count_of (get r ''forks_count'')) \<le> 9007199254740992"
  shows "\<exists>m. fetchOrgMetrics env w = Some (Inr m, [])
           \<and> totalStars m = JNum (\<Sum>r\<leftarrow>repos. count_of (get r ''stargazers_count''))
           \<and> totalForks m = JNum (\<Sum>r\<leftarrow>repos. count_of (get r ''forks_count''))"
proof -
  have objs: "\<forall>r \<in> set repos. \<not> nullish r"
    using assms(4) repo_object_pushed(4) by blast
  obtain m where agg: "aggregate env w org repos = Inr m"
    using aggregate_ok [OF objs assms(2), of env w] by simp
  have "fetchOrgMetrics env w = Some (Inr m, [])"
    using assms(1,3) agg by (rule fetchOrgMetrics_succeeds)
  then show ?thesis
    using totals_of_contract [OF assms(4,2) agg assms(5-7)] by blast
qed

theorem totals_are_sums_of_counts_witness:
  "repo_object one_page repo_a \<and> repo_object one_page repo_b \<and> repo_object one_page repo_c
   \<and> repo_object one_page repo_d \<and> repo_object one_page repo_bare
   \<and> map (\<lambda>r. get r ''stargazers_count'') [repo_a, repo_b, repo_c, repo_d, repo_bare]
       = [JNum 5, JNum 7, JNum 0, JNum 2, JUndefined]
   \<and> map (\<lambda>r. get r ''forks_count'') [repo_a, repo_b, repo_c, repo_d, repo_bare]
       = [JNum 1, JNum 1, JNum 1, JNum 1, JUndefined]
   \<and> (\<exists>m. fetchOrgMetrics example_env one_page = Some (Inr m, [])
          \<and> totalStars m = JNum 14 \<and> totalForks m = JNum 4)"
proof -
  have contract: "\<forall>r \<in> set [repo_a, repo_b, repo_c, repo_d, repo_bare]. repo_object one_page r"
    using example_repos_contract by simp
  have org: "\<not> nullish bare_org"
    by (simp add: nullish_def bare_org_def)
  have stars: "map (\<lambda>r. get r ''stargazers_count'') [repo_a, repo_b, repo_c, repo_d, repo_bare]
       = [JNum 5, JNum 7, JNum 0, JNum 2, JUndefined]"
    and forks: "map (\<lambda>r. get r ''forks_count'') [repo_a, repo_b, repo_c, repo_d, repo_bare]
       = [JNum 1, JNum 1, JNum 1, JNum 1, JUndefined]"
    by (simp_all add: example_repos)
  have pos: "\<forall>r \<in> set [repo_a, repo_b, repo_c, repo_d, repo_bare].
               0 \<le> count_of (get r ''stargazers_count'') \<and> 0 \<le> count_of (get r ''forks_count'')"
    by (simp add: example_repos)
  have bound: "(\<Sum>r\<leftarrow>[repo_a, repo_b, repo_c, repo_d, repo_bare]. count_of (get r ''stargazers_count''))
                 \<le> 9007199254740992"
    "(\<Sum>r\<leftarrow>[repo_a, repo_b, repo_c, repo_d, repo_bare]. count_of (get r ''forks_count''))
                 \<le> 9007199254740992"
    by (simp_all add: example_repos)
  have "\<exists>m. fetchOrgMetrics example_env one_page = Some (Inr m, [])
          \<and> totalStars m = JNum 14 \<and> totalForks m = JNum 4"
    using totals_are_sums_of_counts [OF one_page_org org one_page_listing contract pos bound]
    by (simp add: example_repos)
  then show ?thesis using example_repos_contract stars forks by blast
qed

section \<open>Pages that are not arrays\<close>

lemma listing_failure_caught:
  assumes "listOrgRepos env w = Some (reqs, Inl e)"
  shows "\<exists>e'. (e' = e \<or> fetchJson env w (orgUrl env) = Inl e')
            \<and> ((\<exists>org. fetchJson env w (orgUrl env) = Inr org) \<longrightarrow> e' = e)
            \<and> fetchOrgMetrics env w =
                Some (Inr (degraded env e'),
                      [Warn (''[WARN] Unable to fetch GitHub metrics: '' @ message e')])"
proof (cases "fetchJson env w (orgUrl env)")
  case (Inl e1)
  define e' where "e' = (if org_settles_first w then e1 else e)"
  have "Promise_all (org_settles_first w) (fetchJson env w (orgUrl env))
          (map_option snd (listOrgRepos env w)) = Some (Inl e')"
    using assms Inl by (simp add: Promise_all_def e'_def)
  then have "fetchOrgMetrics env w =
                Some (Inr (degraded env e'),
                      [Warn (''[WARN] Unable to fetch GitHub metrics: '' @ message e')])"
    by (rule fetchOrgMetrics_caught)
  moreover have "e' = e \<or> fetchJson env w (orgUrl env) = Inl e'"
    using Inl by (simp add: e'_def)
  ultimately show ?thesis using Inl by auto
next
  case (Inr org)
  then have "fetchOrgMetrics env w =
                Some (Inr (degraded env e),
                      [Warn (''[WARN] Unable to fetch GitHub metrics: '' @ message e)])"
    using assms by (rule fetchOrgMetrics_listing_failed)
  then show ?thesis by blast
qed

text \<open>
  C4, amended. Let the pages before some listing page be full arrays and let
  that page answer with a success status. The aggregator never rejects. If the
  body of the page is not valid JSON, the listing fails with the parser's
  error and the aggregator recovers: it prints one warning and returns the
  zeroed value whose \<^verbatim>\<open>error\<close> field is the message of the parser's error, or
  that of the organization request's error when that request has failed too
  (the parser's, when it has not). If the body is valid JSON but not an array,
  there is no failure: the pagination ends there with the rows of the pages
  before, as at an empty page; and when moreover the organization request
  answers with a value that is not \<^verbatim>\<open>null\<close> and those rows keep the API's
  contract, nothing is printed and the returned value has no \<^verbatim>\<open>error\<close> field
  and is the one computed from that organization value and those rows.
\<close>

theorem non_array_page_ends_pagination:
  assumes "serves_pages env w 1 full" and "\<forall>p \<in> set full. perPage \<le> length p"
    and "fetch w (page_request env (Suc (length full))) = Response r" and "ok r"
  shows "(\<forall>settled printed. fetchOrgMetrics env w = Some (settled, printed) \<longrightarrow> (\<exists>m. settled = Inr m))
       \<and> (\<forall>e. json_of r = Inl e \<longrightarrow>
              listOrgRepos env w = Some (map (page_request env) [1 ..< length full + 2], Inl e)
            \<and> (\<exists>e' m. (e' = e \<or> fetchJson env w (orgUrl env) = Inl e')
                 \<and> ((\<exists>org. fetchJson env w (orgUrl env) = Inr org) \<longrightarrow> e' = e)
                 \<and> fetchOrgMetrics env w =
                      Some (Inr m, [Warn (''[WARN] Unable to fetch GitHub metrics: '' @ message e')])
                 \<and> publicRepos m = JNum 0 \<and> privateRepos m = JNum 0
                 \<and> followers m = JNum 0 \<and> members m = JNum 0
                 \<and> totalStars m = JNum 0 \<and> totalForks m = JNum 0
                 \<and> latestPushedRepository m = None
                 \<and> error m = Some (message e')))
       \<and> (\<forall>v. json_of r = Inr v \<and> \<not> isArray v \<longrightarrow>
              listOrgRepos env w =
                Some (map (page_request env) [1 ..< length full + 2], Inr (concat full))
            \<and> (\<forall>org. fetchJson env w (orgUrl env) = Inr org \<and> \<not> nullish org
                      \<and> (\<forall>x \<in> set (concat full). repo_object w x) \<longrightarrow>
                   (\<exists>m. fetchOrgMetrics env w = Some (Inr m, [])
                      \<and> error m = None
                      \<and> aggregate env w org (concat full) = Inr m)))"
proof (intro conjI allI impI)
  fix settled printed
  assume "fetchOrgMetrics env w = Some (settled, printed)"
  then show "\<exists>m. settled = Inr m" by (rule fetchOrgMetrics_settles_fulfilled)
next
  fix e
  assume "json_of r = Inl e"
  then have "fetchJson env w (reposUrl env (Suc (length full))) = Inl e"
    using assms(3,4) by (simp add: fetchJson_settle settle_def page_request_def)
  then show listing: "listOrgRepos env w = Some (map (page_request env) [1 ..< length full + 2], Inl e)"
    by (rule listing_fails_at [OF assms(1,2)])
  from listing_failure_caught [OF listing] obtain e' where
    e': "e' = e \<or> fetchJson env w (orgUrl env) = Inl e'"
        "(\<exists>org. fetchJson env w (orgUrl env) = Inr org) \<longrightarrow> e' = e"
        "fetchOrgMetrics env w =
           Some (Inr (degraded env e'),
                 [Warn (''[WARN] Unable to fetch GitHub metrics: '' @ message e')])"
    by blast
  have "publicRepos (degraded env e') = JNum 0" "privateRepos (degraded env e') = JNum 0"
    "followers (degraded env e') = JNum 0" "members (degraded env e') = JNum 0"
    "totalStars (degraded env e') = JNum 0" "totalForks (degraded env e') = JNum 0"
    "latestPushedRepository (degraded env e') = None"
    "error (degraded env e') = Some (message e')"
    by (simp_all add: degraded_def)
  with e' show "\<exists>e' m. (e' = e \<or> fetchJson env w (orgUrl env) = Inl e')
                 \<and> ((\<exists>org. fetchJson env w (orgUrl env) = Inr org) \<longrightarrow> e' = e)
                 \<and> fetchOrgMetrics env w =
                      Some (Inr m, [Warn (''[WARN] Unable to fetch GitHub metrics: '' @ message e')])
                 \<and> publicRepos m = JNum 0 \<and> privateRepos m = JNum 0
                 \<and> followers m = JNum 0 \<and> members m = JNum 0
                 \<and> totalStars m = JNum 0 \<and> totalForks m = JNum 0
                 \<and> latestPushedRepository m = None
                 \<and> error m = Some (message e')"
    by blast
next
  fix v
  assume v: "json_of r = Inr v \<and> \<not> isArray v"
  then have page: "fetchJson env w (reposUrl env (Suc (length full))) = Inr v"
    using assms(3,4) by (simp add: fetchJson_settle settle_def page_request_def)
  from v have "\<not> isArray v" by simp
  with page show listing: "listOrgRepos env w =
      Some (map (page_request env) [1 ..< length full + 2], Inr (concat full))"
    by (rule listing_ends_at_non_array [OF assms(1,2)])
  fix org
  assume org: "fetchJson env w (orgUrl env) = Inr org \<and> \<not> nullish org
                 \<and> (\<forall>x \<in> set (concat full). repo_object w x)"
  then have "\<forall>x \<in> set (concat full). \<not> nullish x"
    using repo_object_pushed(4) by blast
  moreover from org have "\<not> nullish org" by simp
  ultimately obtain m where agg: "aggregate env w org (concat full) = Inr m" and "error m = None"
    using aggregate_ok [of "concat full" org env w] by simp
  moreover have "fetchOrgMetrics env w = Some (Inr m, [])"
    using org listing agg by (intro fetchOrgMetrics_succeeds) simp_all
  ultimately show "\<exists>m. fetchOrgMetrics env w = Some (Inr m, [])
                 \<and> error m = None
                 \<and> aggregate env w org (concat full) = Inr m"
    by blast
qed

theorem non_array_page_ends_pagination_witness:
  "(\<exists>m. fetchOrgMetrics example_env page_not_array = Some (Inr m, [])
        \<and> error m = None \<and> publicRepos m = JNum 7 \<and> totalStars m = JNum 0)
   \<and> listOrgRepos example_env second_page_not_array =
       Some ([page_request example_env 1, page_request example_env 2], Inr (replicate 100 repo_a))
   \<and> (\<exists>m. fetchOrgMetrics example_env second_page_not_array = Some (Inr m, [])
        \<and> error m = None \<and> publicRepos m = JNum 7 \<and> totalStars m = JNum 500)
   \<and> listOrgRepos example_env page_not_json =
       Some ([page_request example_env 1],
             Inl (SyntaxError ''Unexpected token < in JSON at position 0''))
   \<and> (\<exists>m. fetchOrgMetrics example_env page_not_json =
              Some (Inr m, [Warn ''[WARN] Unable to fetch GitHub metrics: Unexpected token < in JSON at position 0''])
          \<and> publicRepos m = JNum 0
          \<and> error m = Some ''Unexpected token < in JSON at position 0'')"
proof -
  let ?body = "JObj [(''total_count'', JNum 2), (''items'', JArr [repo_a, repo_b])]"
  let ?r = "\<lparr>status = 200, text_of = Inr [], json_of = Inr ?body\<rparr>"
  let ?body2 = "JObj [(''message'', JStr ''no more rows'')]"
  let ?r2 = "\<lparr>status = 200, text_of = Inr [], json_of = Inr ?body2\<rparr>"
  have nn: "\<not> nullish counted_org"
    by (simp add: nullish_def counted_org_def)
  have served: "serves_pages env w 1 []" and full: "\<forall>p \<in> set ([] :: jsval list list). perPage \<le> length p"
    for env w
    by simp_all
  have upt2: "[1 ..< 3] = [1, 2::nat]" and upt1: "[1 ..< 2] = [1::nat]"
    by (simp_all add: upt_rec)
  have org1: "fetchJson example_env page_not_array (orgUrl example_env) = Inr counted_org"
    by (simp add: page_not_array_def example_defs)
  have page1: "fetch page_not_array (page_request example_env (Suc (length ([] :: jsval list list))))
               = Response ?r"
    by (simp add: page_not_array_def page_request_def example_defs)
  have ok1: "ok ?r"
    by (simp add: ok_def)
  have agg: "aggregate example_env page_not_array counted_org (concat []) = Inr m
             \<Longrightarrow> publicRepos m = JNum 7 \<and> totalStars m = JNum 0" for m
    by (subst (asm) aggregate_ok) (auto simp: nullish_def counted_org_def js_coalesce_def)
  have "\<exists>m. fetchOrgMetrics example_env page_not_array = Some (Inr m, [])
                 \<and> error m = None
                 \<and> aggregate example_env page_not_array counted_org (concat []) = Inr m"
    using non_array_page_ends_pagination [OF served full page1 ok1] org1 nn by simp
  then have a: "\<exists>m. fetchOrgMetrics example_env page_not_array = Some (Inr m, [])
        \<and> error m = None \<and> publicRepos m = JNum 7 \<and> totalStars m = JNum 0"
    using agg by blast
  have served3: "serves_pages example_env second_page_not_array 1 [replicate 100 repo_a]"
    by (simp add: second_page_not_array_def example_defs)
  have full3: "\<forall>p \<in> set [replicate 100 repo_a]. perPage \<le> length p"
    by (simp add: perPage_def)
  have org3: "fetchJson example_env second_page_not_array (orgUrl example_env) = Inr counted_org"
    by (simp add: second_page_not_array_def example_defs)
  have page3: "fetch second_page_not_array (page_request example_env (Suc (length [replicate 100 repo_a])))
               = Response ?r2"
    by (simp add: second_page_not_array_def page_request_def example_defs)
  have ok3: "ok ?r2"
    by (simp add: ok_def)
  have rows3: "\<forall>x \<in> set (concat [replicate 100 repo_a]). repo_object second_page_not_array x"
    by (simp add: repo_object_def timestamp_def nullish_def second_page_not_array_def
          example_dates_def example_repos)
  have agg3: "publicRepos m = JNum 7 \<and> totalStars m = JNum 500"
    if "aggregate example_env second_page_not_array counted_org (concat [replicate 100 repo_a]) = Inr m"
    for m
  proof -
    have pos: "\<forall>r \<in> set (concat [replicate 100 repo_a]).
                 0 \<le> count_of (get r ''stargazers_count'') \<and> 0 \<le> count_of (get r ''forks_count'')"
      by (simp add: example_repos)
    have objs: "\<forall>x \<in> set (concat [replicate 100 repo_a]). \<not> nullish x"
      using rows3 repo_object_pushed(4) by blast
    have "totalStars m
            = JNum (\<Sum>r\<leftarrow>concat [replicate 100 repo_a]. count_of (get r ''stargazers_count''))"
      by (rule totals_of_contract(1) [OF rows3 nn that pos])
         (simp_all add: sum_list_replicate example_repos)
    moreover have "publicRepos m = JNum 7"
      using aggregate_fields(1) [OF objs nn that]
      by (simp add: counted_org_def js_coalesce_def nullish_def)
    ultimately show ?thesis by (simp add: sum_list_replicate example_repos)
  qed
  have l3: "listOrgRepos example_env second_page_not_array =
       Some ([page_request example_env 1, page_request example_env 2], Inr (replicate 100 repo_a))"
    using non_array_page_ends_pagination [OF served3 full3 page3 ok3]
    by (simp add: upt2 numeral_2_eq_2)
  have "\<exists>m. fetchOrgMetrics example_env second_page_not_array = Some (Inr m, [])
                 \<and> error m = None
                 \<and> aggregate example_env second_page_not_array counted_org
                      (concat [replicate 100 repo_a]) = Inr m"
    using non_array_page_ends_pagination [OF served3 full3 page3 ok3] org3 nn rows3 by simp
  then have c: "\<exists>m. fetchOrgMetrics example_env second_page_not_array = Some (Inr m, [])
        \<and> error m = None \<and> publicRepos m = JNum 7 \<and> totalStars m = JNum 500"
    using agg3 by blast
  have org2: "fetchJson example_env page_not_json (orgUrl example_env) = Inr counted_org"
    by (simp add: page_not_json_def example_defs)
  have page2: "fetch page_not_json (page_request example_env (Suc (length ([] :: jsval list list))))
               = Response not_json"
    by (simp add: page_not_json_def page_request_def example_defs)
  have ok2: "ok not_json"
    and json2: "json_of not_json = Inl (SyntaxError ''Unexpected token < in JSON at position 0'')"
    by (simp_all add: ok_def not_json_def)
  have l2: "listOrgRepos example_env page_not_json =
       Some ([page_request example_env 1],
             Inl (SyntaxError ''Unexpected token < in JSON at position 0''))"
    using non_array_page_ends_pagination [OF served full page2 ok2] json2
    by (simp add: upt1)
  have b: "\<exists>m. fetchOrgMetrics example_env page_not_json =
              Some (Inr m, [Warn ''[WARN] Unable to fetch GitHub metrics: Unexpected token < in JSON at position 0''])
          \<and> publicRepos m = JNum 0
          \<and> error m = Some ''Unexpected token < in JSON at position 0''"
    using non_array_page_ends_pagination [OF served full page2 ok2] json2 org2 by auto
  show ?thesis using a l3 c l2 b by blast
qed

section \<open>The written document\<close>

lemma stringify_scalar: "scalar v \<Longrightarrow> stringify_at gap ind v = scalar_text v"
  by (cases v) auto

lemma scalar_defined: "scalar v \<Longrightarrow> v \<noteq> JUndefined"
  by auto

lemma string_scalar: "is_string v \<Longrightarrow> scalar v"
  by (cases v) auto

lemma members_defined:
  assumes "\<forall>kv \<in> set kvs. snd kv \<noteq> JUndefined"
  shows "serialized kvs = kvs"
    and "concat (map (\<lambda>kv. if snd kv = JUndefined then [] else [f kv]) kvs) = map f kvs"
  using assms by (induction kvs) (auto simp: serialized_def)

lemma stringify_object:
  assumes "\<forall>kv \<in> set kvs. snd kv \<noteq> JUndefined" and "kvs \<noteq> []"
  shows "stringify_at 2 ind (JObj kvs) =
           object_text ind (map (\<lambda>kv. (fst kv, stringify_at 2 (ind + 2) (snd kv))) kvs)"
  using assms(2)
  by (simp add: members_defined [OF assms(1)] object_text_def comp_def)

lemma stringify_systems: "stringify_at 2 2 systems = systems_text"
  by (simp add: systems_def systems_text_def serialized_def object_text_def array_text_def)

lemma stringify_seven:
  assumes "scalar v1" "scalar v2" "scalar v3" "scalar v4" "scalar v5" "scalar v6" "scalar v7"
  shows "stringify_at 2 2 (JObj [(k1, v1), (k2, v2), (k3, v3), (k4, v4), (k5, v5), (k6, v6), (k7, v7)])
         = object_text 2 [(k1, scalar_text v1), (k2, scalar_text v2), (k3, scalar_text v3),
                          (k4, scalar_text v4), (k5, scalar_text v5), (k6, scalar_text v6),
                          (k7, scalar_text v7)]"
  using assms
  by (subst stringify_object) (auto simp: stringify_scalar)

lemma stringify_two:
  assumes "scalar v2"
  shows "stringify_at 2 2 (JObj [(k1, JStr s), (k2, v2)])
         = object_text 2 [(k1, quote s), (k2, scalar_text v2)]"
  using assms
  by (subst stringify_object) (auto simp: stringify_scalar)

text \<open>The values that \<^verbatim>\<open>main\<close> copies into the payload are all scalars.\<close>

lemma payload_scalars:
  assumes "well_typed m"
  shows "scalar (js_add (publicRepos m) (privateRepos m))"
    and "scalar (followers m)" and "scalar (members m)"
    and "scalar (totalStars m)" and "scalar (totalForks m)"
    and "scalar (case latestPushedRepository m of Some latest \<Rightarrow> pushedAt latest | None \<Rightarrow> JNull)"
    and "scalar (case latestPushedRepository m of Some latest \<Rightarrow> name latest | None \<Rightarrow> JNull)"
    and "scalar (case latestPushedRepository m of Some latest \<Rightarrow> htmlUrl latest | None \<Rightarrow> JNull)"
  using assms
  by (auto simp: well_typed_def number_scalar sum_number string_scalar split: option.splits)

lemma payload_parts:
  "get (payload env m) ''systems'' = systems"
  "get (payload env m) ''metrics'' =
     JObj [(''repos'', js_add (publicRepos m) (privateRepos m)),
           (''followers'', followers m),
           (''members'', members m),
           (''totalStars'', totalStars m),
           (''totalForks'', totalForks m),
           (''latestCommit'',
              (case latestPushedRepository m of
                 Some latest \<Rightarrow> pushedAt latest | None \<Rightarrow> JNull)),
           (''latestRepository'',
              (case latestPushedRepository m of
                 Some latest \<Rightarrow> name latest | None \<Rightarrow> JNull))]"
  "get (payload env m) ''sources'' =
     JObj [(''github'', JStr (''https://github.com/'' @ GITHUB_ORG env)),
           (''latestRepository'',
              (case latestPushedRepository m of
                 Some latest \<Rightarrow> htmlUrl latest | None \<Rightarrow> JNull))]"
  by (simp_all add: payload_def)

lemma payload_document:
  assumes "well_typed m"
  shows "JSON_stringify (payload env m) 2 = document_text env m"
proof -
  have metrics: "stringify_at 2 2 (get (payload env m) ''metrics'') =
      object_text 2
             [(''repos'', scalar_text (js_add (publicRepos m) (privateRepos m))),
              (''followers'', scalar_text (followers m)),
              (''members'', scalar_text (members m)),
              (''totalStars'', scalar_text (totalStars m)),
              (''totalForks'', scalar_text (totalForks m)),
              (''latestCommit'',
                 scalar_text (case latestPushedRepository m of
                                Some latest \<Rightarrow> pushedAt latest | None \<Rightarrow> JNull)),
              (''latestRepository'',
                 scalar_text (case latestPushedRepository m of
                                Some latest \<Rightarrow> name latest | None \<Rightarrow> JNull))]"
    by (simp only: payload_parts stringify_seven [OF payload_scalars(1-7) [OF assms]])
  have sources: "stringify_at 2 2 (get (payload env m) ''sources'') =
      object_text 2
             [(''github'', quote (''https://github.com/'' @ GITHUB_ORG env)),
              (''latestRepository'',
                 scalar_text (case latestPushedRepository m of
                                Some latest \<Rightarrow> htmlUrl latest | None \<Rightarrow> JNull))]"
    by (simp only: payload_parts stringify_two [OF payload_scalars(8) [OF assms]])
  show ?thesis
    unfolding payload_text document_text_def metrics sources payload_parts(1) stringify_systems
    by (simp add: object_text_def numeral_2_eq_2)
qed

lemma aggregate_no_error:
  assumes "aggregate env w org repos = Inr m"
  shows "error m = None"
  using assms by (auto simp: aggregate_def Let_def split: sum.splits)

lemma degraded_well_typed: "well_typed (degraded env e)"
  by (simp add: well_typed_def degraded_def)

lemma aggregate_well_typed:
  assumes "\<forall>r \<in> set repos. repo_object w r" and "org_object org"
    and "aggregate env w org repos = Inr m"
  shows "well_typed m"
proof -
  have objs: "\<forall>r \<in> set repos. \<not> nullish r"
    using assms(1) repo_object_pushed(4) by blast
  have org: "\<not> nullish org"
    using assms(2) by (cases org) (auto simp: org_object_def nullish_def)
  have stars: "\<forall>r \<in> set repos. count_or_missing (get r ''stargazers_count'')"
    and forks: "\<forall>r \<in> set repos. count_or_missing (get r ''forks_count'')"
    using assms(1) by (simp_all add: repo_object_def)
  have counts: "count_or_missing (get org ''public_repos'')"
    "count_or_missing (get org ''total_private_repos'')"
    "count_or_missing (get org ''followers'')" "count_or_missing (get org ''public_members'')"
    using assms(2) by (simp_all add: org_object_def)
  have numbers: "is_number (publicRepos m)" "is_number (privateRepos m)"
    "is_number (followers m)" "is_number (members m)"
    "is_number (totalStars m)" "is_number (totalForks m)"
    using aggregate_fields(1-6) [OF objs org assms(3)]
    by (simp_all add: coalesce_count [OF counts(1)] coalesce_count [OF counts(2)]
          coalesce_count [OF counts(3)] coalesce_count [OF counts(4)]
          foldl_number [OF stars] foldl_number [OF forks])
  have "case latestPushedRepository m of
            None \<Rightarrow> True
          | Some latest \<Rightarrow>
              is_string (name latest) \<and> is_string (pushedAt latest) \<and> is_string (htmlUrl latest)"
    using aggregate_contract_latest [OF assms(1) org assms(3)] by auto
  with numbers show ?thesis by (simp add: well_typed_def)
qed

lemma scalar_members:
  assumes "\<forall>kv \<in> set kvs. scalar (snd kv)"
  shows "written_keys (JObj kvs) = map fst kvs"
    and "written_keys_deep (JObj kvs) = map fst kvs"
proof -
  have deep: "scalar v \<Longrightarrow> written_keys_deep v = []" for v
    by (cases v) auto
  have "\<forall>kv \<in> set kvs. snd kv \<noteq> JUndefined"
    using assms scalar_defined by blast
  then show "written_keys (JObj kvs) = map fst kvs"
    by (simp add: members_defined(1))
  show "written_keys_deep (JObj kvs) = map fst kvs"
    using assms by (induction kvs) (auto simp: deep)
qed

lemma deep_four:
  assumes "v2 \<noteq> JUndefined" and "v3 \<noteq> JUndefined" and "v4 \<noteq> JUndefined"
  shows "written_keys_deep (JObj [(k1, JStr s), (k2, v2), (k3, v3), (k4, v4)]) =
           k1 # (k2 # written_keys_deep v2) @ (k3 # written_keys_deep v3)
              @ (k4 # written_keys_deep v4)"
  using assms by simp

lemma written_keys_fixed:
  assumes "well_typed m"
  shows "written_keys (get (payload env m) ''metrics'') =
           [''repos'', ''followers'', ''members'', ''totalStars'', ''totalForks'',
            ''latestCommit'', ''latestRepository'']"
    and "written_keys (get (payload env m) ''sources'') = [''github'', ''latestRepository'']"
    and "written_keys_deep (payload env m) =
           [''generatedAt'',
            ''systems'', ''name'', ''status'', ''emphasis'', ''name'', ''status'', ''emphasis'',
            ''metrics'', ''repos'', ''followers'', ''members'', ''totalStars'', ''totalForks'',
            ''latestCommit'', ''latestRepository'',
            ''sources'', ''github'', ''latestRepository'']"
proof -
  note s = payload_scalars [OF assms]
  show "written_keys (get (payload env m) ''metrics'') =
           [''repos'', ''followers'', ''members'', ''totalStars'', ''totalForks'',
            ''latestCommit'', ''latestRepository'']"
    unfolding payload_parts by (subst scalar_members(1)) (simp_all add: s)
  show "written_keys (get (payload env m) ''sources'') = [''github'', ''latestRepository'']"
    unfolding payload_parts by (subst scalar_members(1)) (simp_all add: s)
  have metrics: "written_keys_deep (get (payload env m) ''metrics'') =
      [''repos'', ''followers'', ''members'', ''totalStars'', ''totalForks'',
            ''latestCommit'', ''latestRepository'']"
    unfolding payload_parts by (subst scalar_members(2)) (simp_all add: s)
  have sources: "written_keys_deep (get (payload env m) ''sources'') =
      [''github'', ''latestRepository'']"
    unfolding payload_parts by (subst scalar_members(2)) (simp_all add: s)
  have "written_keys_deep (payload env m) =
      ''generatedAt'' # (''systems'' # written_keys_deep (get (payload env m) ''systems''))
        @ (''metrics'' # written_keys_deep (get (payload env m) ''metrics''))
        @ (''sources'' # written_keys_deep (get (payload env m) ''sources''))"
    by (subst payload_members(1)) (rule deep_four [OF payload_members(2-4)])
  then show "written_keys_deep (payload env m) =
           [''generatedAt'',
            ''systems'', ''name'', ''status'', ''emphasis'', ''name'', ''status'', ''emphasis'',
            ''metrics'', ''repos'', ''followers'', ''members'', ''totalStars'', ''totalForks'',
            ''latestCommit'', ''latestRepository'',
            ''sources'', ''github'', ''latestRepository'']"
    unfolding metrics sources payload_parts(1) by (simp add: systems_def)
qed

section \<open>The shape of the written document\<close>

lemma run_writes:
  assumes "fetchOrgMetrics env w = Some (Inr m, printed)" and "listOrgRepos env w \<noteq> None"
    and "present (files st) (OUTPUT_DIR env) \<or> mkdir_fault (files st) (OUTPUT_DIR env) = None"
    and "write_fault (files st) (OUTPUT_FILE env) = None"
  shows "fst (run env w st) = Some 0"
    and "contents (files (snd (run env w st))) (OUTPUT_FILE env)
           = Some (JSON_stringify (payload env m) 2)"
proof -
  from main_writes [OF assms(1,3,4)] obtain st' where
    "main env w st = Some (Inr (), st')"
    "contents (files st') (OUTPUT_FILE env) = Some (JSON_stringify (payload env m) 2)"
    by blast
  then show "fst (run env w st) = Some 0"
    and "contents (files (snd (run env w st))) (OUTPUT_FILE env)
           = Some (JSON_stringify (payload env m) 2)"
    using assms(2) by (simp_all add: run_def)
qed

lemma fresh_accepts:
  "present (files fresh) (OUTPUT_DIR env) \<or> mkdir_fault (files fresh) (OUTPUT_DIR env) = None"
  "write_fault (files fresh) (OUTPUT_FILE env) = None"
  by (simp_all add: fresh_def empty_disk_def)

lemma nameless_metrics:
  "fetchOrgMetrics example_env nameless =
     Some (Inr \<lparr>organization = ''abstract-data'',
                publicRepos = JNum 7, privateRepos = JNum 2,
                followers = JNum 12, members = JNum 3,
                totalStars = JNum 4, totalForks = JNum 0,
                latestPushedRepository =
                  Some \<lparr>name = JUndefined, pushedAt = JStr ''2024-01-01T00:00:00Z'',
                        htmlUrl = JUndefined\<rparr>,
                error = None\<rparr>,
           [])"
proof -
  have org: "fetchJson example_env nameless (orgUrl example_env) = Inr counted_org"
    by (simp add: nameless_def example_defs)
  have listing: "listOrgRepos example_env nameless =
                   Some ([page_request example_env 1], Inr [nameless_row])"
    by (rule short_page_listing) (simp_all add: nameless_def example_defs perPage_def)
  have "aggregate example_env nameless counted_org [nameless_row] =
     Inr \<lparr>organization = ''abstract-data'',
                publicRepos = JNum 7, privateRepos = JNum 2,
                followers = JNum 12, members = JNum 3,
                totalStars = JNum 4, totalForks = JNum 0,
                latestPushedRepository =
                  Some \<lparr>name = JUndefined, pushedAt = JStr ''2024-01-01T00:00:00Z'',
                        htmlUrl = JUndefined\<rparr>,
                error = None\<rparr>"
    by (subst aggregate_ok)
       (simp_all add: nullish_def counted_org_def js_coalesce_def js_sort_def GITHUB_ORG_def
          example_env_def nameless_row_def js_or_def js_add_def double_safe)
  with org listing show ?thesis
    by (intro fetchOrgMetrics_succeeds) simp_all
qed

lemma nameless_listing: "listOrgRepos example_env nameless \<noteq> None"
  using short_page_listing [of example_env nameless "[nameless_row]"]
  by (simp add: nameless_def example_defs)

lemmas number_defs = number_text_def dec.simps digit_def Let_def

text \<open>
  C10 as stated fails. When the most recently pushed row of the listing
  carries neither \<^verbatim>\<open>name\<close> nor \<^verbatim>\<open>html_url\<close>, \<^verbatim>\<open>main\<close> copies
  \<^verbatim>\<open>undefined\<close> into \<^verbatim>\<open>metrics.latestRepository\<close> and
  \<^verbatim>\<open>sources.latestRepository\<close>, and \<^verbatim>\<open>JSON.stringify\<close> leaves both members
  out: the run succeeds and the written file has six keys under \<^verbatim>\<open>metrics\<close>
  and one under \<^verbatim>\<open>sources\<close>.
\<close>

theorem payload_shape_counterexample:
  "get nameless_row ''name'' = JUndefined
   \<and> get nameless_row ''html_url'' = JUndefined
   \<and> fst (run example_env nameless fresh) = Some 0
   \<and> contents (files (snd (run example_env nameless fresh))) (OUTPUT_FILE example_env) =
       Some (object_text 0
               [(''generatedAt'', quote ''2024-05-01T09:00:00.000Z''),
                (''systems'', systems_text),
                (''metrics'',
                   object_text 2
                     [(''repos'', ''9''),
                      (''followers'', ''12''),
                      (''members'', ''3''),
                      (''totalStars'', ''4''),
                      (''totalForks'', ''0''),
                      (''latestCommit'', quote ''2024-01-01T00:00:00Z'')]),
                (''sources'',
                   object_text 2 [(''github'', quote ''https://github.com/abstract-data'')])])"
proof -
  let ?m = "\<lparr>organization = ''abstract-data'',
                publicRepos = JNum 7, privateRepos = JNum 2,
                followers = JNum 12, members = JNum 3,
                totalStars = JNum 4, totalForks = JNum 0,
                latestPushedRepository =
                  Some \<lparr>name = JUndefined, pushedAt = JStr ''2024-01-01T00:00:00Z'',
                        htmlUrl = JUndefined\<rparr>,
                error = None\<rparr>"
  have row: "get nameless_row ''name'' = JUndefined" "get nameless_row ''html_url'' = JUndefined"
    by (simp_all add: nameless_row_def)
  have metrics: "stringify_at 2 2 (get (payload example_env ?m) ''metrics'') =
                   object_text 2
                     [(''repos'', ''9''),
                      (''followers'', ''12''),
                      (''members'', ''3''),
                      (''totalStars'', ''4''),
                      (''totalForks'', ''0''),
                      (''latestCommit'', quote ''2024-01-01T00:00:00Z'')]"
    unfolding payload_parts
    by (simp add: serialized_def object_text_def js_add_def double_safe number_defs)
  have sources: "stringify_at 2 2 (get (payload example_env ?m) ''sources'') =
                   object_text 2 [(''github'', quote ''https://github.com/abstract-data'')]"
    unfolding payload_parts
    by (simp add: serialized_def object_text_def GITHUB_ORG_def example_env_def)
  have "JSON_stringify (payload example_env ?m) 2 =
          object_text 0
               [(''generatedAt'', quote ''2024-05-01T09:00:00.000Z''),
                (''systems'', systems_text),
                (''metrics'',
                   object_text 2
                     [(''repos'', ''9''),
                      (''followers'', ''12''),
                      (''members'', ''3''),
                      (''totalStars'', ''4''),
                      (''totalForks'', ''0''),
                      (''latestCommit'', quote ''2024-01-01T00:00:00Z'')]),
                (''sources'',
                   object_text 2 [(''github'', quote ''https://github.com/abstract-data'')])]"
    unfolding payload_text metrics sources payload_parts(1) stringify_systems
    by (simp add: object_text_def [of 0] numeral_2_eq_2 example_env_def)
  then show ?thesis
    using run_writes [OF nameless_metrics nameless_listing fresh_accepts] row by simp
qed

lemma shape_is_fixed:
  assumes "fetchOrgMetrics env w = Some (Inr m, printed)"
    and "error m = None \<longrightarrow>
           (\<forall>org reqs repos. fetchJson env w (orgUrl env) = Inr org
                \<and> listOrgRepos env w = Some (reqs, Inr repos)
              \<longrightarrow> org_object org \<and> (\<forall>r \<in> set repos. repo_object w r))"
  shows "well_typed m"
  using fetchOrgMetrics_cases [OF assms(1)]
proof (elim disjE exE conjE)
  fix e
  assume "m = degraded env e"
  then show ?thesis by (simp add: degraded_well_typed)
next
  fix org reqs repos
  assume a: "fetchJson env w (orgUrl env) = Inr org" "listOrgRepos env w = Some (reqs, Inr repos)"
    and agg: "aggregate env w org repos = Inr m"
  from agg have "error m = None" by (rule aggregate_no_error)
  with assms(2) a have "org_object org" "\<forall>r \<in> set repos. repo_object w r" by blast+
  then show ?thesis using agg by (intro aggregate_well_typed)
qed

text \<open>
  C10, amended. Take a run in which the aggregation returns and the file
  system accepts the directory and the file, and which is either degraded or
  successful on responses that keep the API's contract: the organization is an
  object, every row of the listing is an object with a string \<^verbatim>\<open>name\<close> and
  \<^verbatim>\<open>html_url\<close> and a \<^verbatim>\<open>pushed_at\<close> that is \<^verbatim>\<open>null\<close>, missing or a valid date
  string, and every counter is an integer or is missing. Then the written file
  is the document laid out with exactly the seven keys \<^verbatim>\<open>repos\<close>,
  \<^verbatim>\<open>followers\<close>, \<^verbatim>\<open>members\<close>, \<^verbatim>\<open>totalStars\<close>, \<^verbatim>\<open>totalForks\<close>,
  \<^verbatim>\<open>latestCommit\<close>, \<^verbatim>\<open>latestRepository\<close> under \<^verbatim>\<open>metrics\<close> and exactly
  the two keys \<^verbatim>\<open>github\<close>, \<^verbatim>\<open>latestRepository\<close> under \<^verbatim>\<open>sources\<close>, every
  value under them a number, a string or \<^verbatim>\<open>null\<close>; and \<^verbatim>\<open>error\<close> is not a key
  anywhere in the file.
\<close>

theorem payload_shape_is_fixed:
  assumes "fetchOrgMetrics env w = Some (Inr m, printed)"
    and "error m = None \<longrightarrow>
           (\<forall>org reqs repos. fetchJson env w (orgUrl env) = Inr org
                \<and> listOrgRepos env w = Some (reqs, Inr repos)
              \<longrightarrow> org_object org \<and> (\<forall>r \<in> set repos. repo_object w r))"
    and "present (files st) (OUTPUT_DIR env) \<or> mkdir_fault (files st) (OUTPUT_DIR env) = None"
    and "write_fault (files st) (OUTPUT_FILE env) = None"
  shows "\<exists>st'. main env w st = Some (Inr (), st')
           \<and> contents (files st') (OUTPUT_FILE env) = Some (document_text env m)
           \<and> well_typed m
           \<and> written_keys (get (payload env m) ''metrics'') =
               [''repos'', ''followers'', ''members'', ''totalStars'', ''totalForks'',
                ''latestCommit'', ''latestRepository'']
           \<and> written_keys (get (payload env m) ''sources'') = [''github'', ''latestRepository'']
           \<and> written_keys_deep (payload env m) =
               [''generatedAt'',
                ''systems'', ''name'', ''status'', ''emphasis'', ''name'', ''status'', ''emphasis'',
                ''metrics'', ''repos'', ''followers'', ''members'', ''totalStars'', ''totalForks'',
                ''latestCommit'', ''latestRepository'',
                ''sources'', ''github'', ''latestRepository'']
           \<and> ''error'' \<notin> set (written_keys_deep (payload env m))"
proof -
  have typed: "well_typed m"
    using assms(1,2) by (rule shape_is_fixed)
  from main_writes [OF assms(1,3,4)] obtain st' where
    "main env w st = Some (Inr (), st')"
    "contents (files st') (OUTPUT_FILE env) = Some (JSON_stringify (payload env m) 2)"
    by blast
  then have "main env w st = Some (Inr (), st')
           \<and> contents (files st') (OUTPUT_FILE env) = Some (document_text env m)"
    by (simp add: payload_document [OF typed])
  moreover have "''error'' \<notin> set (written_keys_deep (payload env m))"
    by (simp add: written_keys_fixed(3) [OF typed])
  ultimately show ?thesis
    using typed written_keys_fixed [OF typed, of env] by blast
qed

lemma one_page_metrics:
  "fetchOrgMetrics example_env one_page =
     Some (Inr \<lparr>organization = ''abstract-data'',
                publicRepos = JNum 5, privateRepos = JNum 0,
                followers = JNum 0, members = JNum 0,
                totalStars = JNum 14, totalForks = JNum 4,
                latestPushedRepository =
                  Some \<lparr>name = JStr ''beta'', pushedAt = JStr ''2024-03-01T00:00:00Z'',
                        htmlUrl = JStr ''https://github.com/abstract-data/beta''\<rparr>,
                error = None\<rparr>,
           [])"
proof -
  have "aggregate example_env one_page bare_org [repo_a, repo_b, repo_c, repo_d, repo_bare] =
     Inr \<lparr>organization = ''abstract-data'',
                publicRepos = JNum 5, privateRepos = JNum 0,
                followers = JNum 0, members = JNum 0,
                totalStars = JNum 14, totalForks = JNum 4,
                latestPushedRepository =
                  Some \<lparr>name = JStr ''beta'', pushedAt = JStr ''2024-03-01T00:00:00Z'',
                        htmlUrl = JStr ''https://github.com/abstract-data/beta''\<rparr>,
                error = None\<rparr>"
    by (subst aggregate_ok)
       (simp_all add: nullish_def js_coalesce_def js_sort_def GITHUB_ORG_def
          example_env_def example_repos js_or_def js_add_def double_safe
          compare_pushed_def positive_def one_page_def example_dates_def)
  with one_page_org one_page_listing show ?thesis
    by (intro fetchOrgMetrics_succeeds) simp_all
qed

lemma second_page_fails_metrics:
  "fetchOrgMetrics example_env second_page_fails =
     Some (Inr (degraded example_env
                  (Error ''Failed request https://api.github.com/orgs/abstract-data/repos?per_page=100&page=2&type=all&sort=updated -> 500: Internal Server Error'')),
           [Warn ''[WARN] Unable to fetch GitHub metrics: Failed request https://api.github.com/orgs/abstract-data/repos?per_page=100&page=2&type=all&sort=updated -> 500: Internal Server Error''])"
proof -
  have org: "fetchJson example_env second_page_fails (orgUrl example_env) = Inr example_org"
    by (simp add: second_page_fails_def example_defs)
  have first: "serves_pages example_env second_page_fails 1 [replicate 100 repo_a]"
    by (simp add: second_page_fails_def example_defs)
  have full: "\<forall>p \<in> set [replicate 100 repo_a]. perPage \<le> length p"
    by (simp add: perPage_def)
  have "fetchJson example_env second_page_fails
              (reposUrl example_env (Suc (length [replicate 100 repo_a]))) =
        Inl (Error ''Failed request https://api.github.com/orgs/abstract-data/repos?per_page=100&page=2&type=all&sort=updated -> 500: Internal Server Error'')"
    by (simp add: second_page_fails_def server_error_def example_defs numeral_2_eq_2)
  from listing_fails_at [OF first full this] org show ?thesis
    by (simp add: fetchOrgMetrics_listing_failed)
qed

theorem payload_shape_is_fixed_witness:
  "(\<exists>st'. main example_env one_page fresh = Some (Inr (), st')
       \<and> contents (files st') (OUTPUT_FILE example_env) =
           Some (object_text 0
                   [(''generatedAt'', quote ''2024-05-01T09:00:00.000Z''),
                    (''systems'', systems_text),
                    (''metrics'',
                       object_text 2
                         [(''repos'', ''5''),
                          (''followers'', ''0''),
                          (''members'', ''0''),
                          (''totalStars'', ''14''),
                          (''totalForks'', ''4''),
                          (''latestCommit'', quote ''2024-03-01T00:00:00Z''),
                          (''latestRepository'', quote ''beta'')]),
                    (''sources'',
                       object_text 2
                         [(''github'', quote ''https://github.com/abstract-data''),
                          (''latestRepository'',
                             quote ''https://github.com/abstract-data/beta'')])]))
   \<and> (\<exists>m printed st'.
         fetchOrgMetrics example_env second_page_fails = Some (Inr m, printed)
       \<and> error m \<noteq> None
       \<and> main example_env second_page_fails fresh = Some (Inr (), st')
       \<and> contents (files st') (OUTPUT_FILE example_env) =
           Some (object_text 0
                   [(''generatedAt'', quote ''2024-05-01T09:00:00.000Z''),
                    (''systems'', systems_text),
                    (''metrics'',
                       object_text 2
                         [(''repos'', ''0''),
                          (''followers'', ''0''),
                          (''members'', ''0''),
                          (''totalStars'', ''0''),
                          (''totalForks'', ''0''),
                          (''latestCommit'', ''null''),
                          (''latestRepository'', ''null'')]),
                    (''sources'',
                       object_text 2
                         [(''github'', quote ''https://github.com/abstract-data''),
                          (''latestRepository'', ''null'')])])
       \<and> ''error'' \<notin> set (written_keys_deep (payload example_env m)))"
proof -
  let ?m = "\<lparr>organization = ''abstract-data'',
                publicRepos = JNum 5, privateRepos = JNum 0,
                followers = JNum 0, members = JNum 0,
                totalStars = JNum 14, totalForks = JNum 4,
                latestPushedRepository =
                  Some \<lparr>name = JStr ''beta'', pushedAt = JStr ''2024-03-01T00:00:00Z'',
                        htmlUrl = JStr ''https://github.com/abstract-data/beta''\<rparr>,
                error = None\<rparr>"
  let ?e = "Error ''Failed request https://api.github.com/orgs/abstract-data/repos?per_page=100&page=2&type=all&sort=updated -> 500: Internal Server Error''"
  have contract: "error ?m = None \<longrightarrow>
           (\<forall>org reqs repos. fetchJson example_env one_page (orgUrl example_env) = Inr org
                \<and> listOrgRepos example_env one_page = Some (reqs, Inr repos)
              \<longrightarrow> org_object org \<and> (\<forall>r \<in> set repos. repo_object one_page r))"
    using example_repos_contract
    by (simp add: one_page_org one_page_listing org_object_def bare_org_def)
  have live: "document_text example_env ?m =
      object_text 0
                   [(''generatedAt'', quote ''2024-05-01T09:00:00.000Z''),
                    (''systems'', systems_text),
                    (''metrics'',
                       object_text 2
                         [(''repos'', ''5''),
                          (''followers'', ''0''),
                          (''members'', ''0''),
                          (''totalStars'', ''14''),
                          (''totalForks'', ''4''),
                          (''latestCommit'', quote ''2024-03-01T00:00:00Z''),
                          (''latestRepository'', quote ''beta'')]),
                    (''sources'',
                       object_text 2
                         [(''github'', quote ''https://github.com/abstract-data''),
                          (''latestRepository'',
                             quote ''https://github.com/abstract-data/beta'')])]"
    by (simp add: document_text_def js_add_def double_safe number_defs GITHUB_ORG_def
          example_env_def)
  have a: "\<exists>st'. main example_env one_page fresh = Some (Inr (), st')
       \<and> contents (files st') (OUTPUT_FILE example_env) = Some (document_text example_env ?m)"
    using payload_shape_is_fixed [OF one_page_metrics contract fresh_accepts] by blast
  have degraded: "error (degraded example_env ?e) = None \<longrightarrow>
           (\<forall>org reqs repos. fetchJson example_env second_page_fails (orgUrl example_env) = Inr org
                \<and> listOrgRepos example_env second_page_fails = Some (reqs, Inr repos)
              \<longrightarrow> org_object org \<and> (\<forall>r \<in> set repos. repo_object second_page_fails r))"
    by (simp add: degraded_def)
  have zeroed: "document_text example_env (degraded example_env ?e) =
      object_text 0
                   [(''generatedAt'', quote ''2024-05-01T09:00:00.000Z''),
                    (''systems'', systems_text),
                    (''metrics'',
                       object_text 2
                         [(''repos'', ''0''),
                          (''followers'', ''0''),
                          (''members'', ''0''),
                          (''totalStars'', ''0''),
                          (''totalForks'', ''0''),
                          (''latestCommit'', ''null''),
                          (''latestRepository'', ''null'')]),
                    (''sources'',
                       object_text 2
                         [(''github'', quote ''https://github.com/abstract-data''),
                          (''latestRepository'', ''null'')])]"
    by (simp add: document_text_def degraded_def js_add_def double_safe number_defs GITHUB_ORG_def
          example_env_def)
  have b: "\<exists>st'. main example_env second_page_fails fresh = Some (Inr (), st')
       \<and> contents (files st') (OUTPUT_FILE example_env)
           = Some (document_text example_env (degraded example_env ?e))
       \<and> ''error'' \<notin> set (written_keys_deep (payload example_env (degraded example_env ?e)))"
    using payload_shape_is_fixed [OF second_page_fails_metrics degraded fresh_accepts] by blast
  have "error (degraded example_env ?e) \<noteq> None"
    by (simp add: degraded_def)
  with a b second_page_fails_metrics show ?thesis
    unfolding live zeroed by blast
qed

section \<open>The repository count\<close>

lemma huge_counts_metrics:
  "fetchOrgMetrics example_env huge_counts =
     Some (Inr \<lparr>organization = ''abstract-data'',
                publicRepos = JNum 9007199254740992, privateRepos = JNum 1,
                followers = JNum 12, members = JNum 3,
                totalStars = JNum 0, totalForks = JNum 0,
                latestPushedRepository = None,
                error = None\<rparr>,
           [])"
proof -
  have org: "fetchJson example_env huge_counts (orgUrl example_env) = Inr huge_org"
    by (simp add: huge_counts_def example_defs)
  have listing: "listOrgRepos example_env huge_counts = Some ([page_request example_env 1], Inr [])"
    by (rule short_page_listing) (simp_all add: huge_counts_def example_defs perPage_def)
  have "aggregate example_env huge_counts huge_org [] =
     Inr \<lparr>organization = ''abstract-data'',
                publicRepos = JNum 9007199254740992, privateRepos = JNum 1,
                followers = JNum 12, members = JNum 3,
                totalStars = JNum 0, totalForks = JNum 0,
                latestPushedRepository = None,
                error = None\<rparr>"
    by (subst aggregate_ok)
       (simp_all add: nullish_def huge_org_def js_coalesce_def js_sort_def GITHUB_ORG_def
          example_env_def)
  with org listing show ?thesis
    by (intro fetchOrgMetrics_succeeds) simp_all
qed

lemma huge_counts_listing: "listOrgRepos example_env huge_counts \<noteq> None"
  using short_page_listing [of example_env huge_counts "[]"]
  by (simp add: huge_counts_def example_defs)

text \<open>
  C3 as stated fails. \<^verbatim>\<open>metrics.publicRepos + metrics.privateRepos\<close> is an
  addition of JavaScript numbers, which are doubles: for an organization with
  \<open>2^53\<close> public repositories and one private repository the sum \<open>2^53 + 1\<close>
  is rounded back to \<open>2^53\<close>, and the written file has
  \<^verbatim>\<open>"repos": 9007199254740992\<close> where the two counts add up to
  \<open>9007199254740993\<close>.
\<close>

theorem repos_rounding_counterexample:
  "get huge_org ''public_repos'' = JNum 9007199254740992
   \<and> get huge_org ''total_private_repos'' = JNum 1
   \<and> count_of (get huge_org ''public_repos'') + count_of (get huge_org ''total_private_repos'')
       = 9007199254740993
   \<and> fst (run example_env huge_counts fresh) = Some 0
   \<and> contents (files (snd (run example_env huge_counts fresh))) (OUTPUT_FILE example_env) =
       Some (object_text 0
               [(''generatedAt'', quote ''2024-05-01T09:00:00.000Z''),
                (''systems'', systems_text),
                (''metrics'',
                   object_text 2
                     [(''repos'', ''9007199254740992''),
                      (''followers'', ''12''),
                      (''members'', ''3''),
                      (''totalStars'', ''0''),
                      (''totalForks'', ''0''),
                      (''latestCommit'', ''null''),
                      (''latestRepository'', ''null'')]),
                (''sources'',
                   object_text 2
                     [(''github'', quote ''https://github.com/abstract-data''),
                      (''latestRepository'', ''null'')])])"
proof -
  let ?m = "\<lparr>organization = ''abstract-data'',
                publicRepos = JNum 9007199254740992, privateRepos = JNum 1,
                followers = JNum 12, members = JNum 3,
                totalStars = JNum 0, totalForks = JNum 0,
                latestPushedRepository = None,
                error = None\<rparr>"
  have org: "get huge_org ''public_repos'' = JNum 9007199254740992"
    "get huge_org ''total_private_repos'' = JNum 1"
    "count_of (get huge_org ''public_repos'') + count_of (get huge_org ''total_private_repos'')
       = 9007199254740993"
    by (simp_all add: huge_org_def)
  have "well_typed ?m"
    by (simp add: well_typed_def)
  then have "JSON_stringify (payload example_env ?m) 2 = document_text example_env ?m"
    by (rule payload_document)
  also have "\<dots> = object_text 0
               [(''generatedAt'', quote ''2024-05-01T09:00:00.000Z''),
                (''systems'', systems_text),
                (''metrics'',
                   object_text 2
                     [(''repos'', ''9007199254740992''),
                      (''followers'', ''12''),
                      (''members'', ''3''),
                      (''totalStars'', ''0''),
                      (''totalForks'', ''0''),
                      (''latestCommit'', ''null''),
                      (''latestRepository'', ''null'')]),
                (''sources'',
                   object_text 2
                     [(''github'', quote ''https://github.com/abstract-data''),
                      (''latestRepository'', ''null'')])]"
    by (simp add: document_text_def js_add_def double_rounds number_defs GITHUB_ORG_def
          example_env_def)
  finally show ?thesis
    using run_writes [OF huge_counts_metrics huge_counts_listing fresh_accepts] org by simp
qed

text \<open>
  C3, amended. Let the organization request answer with an object whose
  counters are integers or missing, let the listing return rows that keep the
  API's contract, let the file system accept the directory and the file, and
  let the sum below not exceed \<open>2^53\<close> in magnitude. Then the aggregation
  succeeds and the \<^verbatim>\<open>metrics.repos\<close> of the written document is
  \<^verbatim>\<open>publicRepos + privateRepos\<close>, where \<^verbatim>\<open>publicRepos\<close> is the organization's
  \<^verbatim>\<open>public_repos\<close> whenever that is a number, zero included, and the length of
  the fetched repository list only when the field is missing (absent or
  \<^verbatim>\<open>null\<close>), and \<^verbatim>\<open>privateRepos\<close> is \<^verbatim>\<open>total_private_repos\<close>, or 0 when that
  is missing.
\<close>

theorem payload_repos_is_public_plus_private:
  assumes "fetchJson env w (orgUrl env) = Inr org" and "org_object org"
    and "listOrgRepos env w = Some (reqs, Inr repos)" and "\<forall>r \<in> set repos. repo_object w r"
    and "\<bar>count_or (int (length repos)) (get org ''public_repos'')
          + count_or 0 (get org ''total_private_repos'')\<bar> \<le> 9007199254740992"
    and "present (files st) (OUTPUT_DIR env) \<or> mkdir_fault (files st) (OUTPUT_DIR env) = None"
    and "write_fault (files st) (OUTPUT_FILE env) = None"
  shows "\<exists>m st'. fetchOrgMetrics env w = Some (Inr m, [])
           \<and> error m = None
           \<and> publicRepos m = JNum (count_or (int (length repos)) (get org ''public_repos''))
           \<and> privateRepos m = JNum (count_or 0 (get org ''total_private_repos''))
           \<and> js_add (publicRepos m) (privateRepos m) =
               JNum (count_or (int (length repos)) (get org ''public_repos'')
                     + count_or 0 (get org ''total_private_repos''))
           \<and> get (get (payload env m) ''metrics'') ''repos'' =
               JNum (count_or (int (length repos)) (get org ''public_repos'')
                     + count_or 0 (get org ''total_private_repos''))
           \<and> main env w st = Some (Inr (), st')
           \<and> contents (files st') (OUTPUT_FILE env) = Some (document_text env m)"
proof -
  have objs: "\<forall>r \<in> set repos. \<not> nullish r"
    using assms(4) repo_object_pushed(4) by blast
  have org: "\<not> nullish org"
    using assms(2) by (cases org) (auto simp: org_object_def nullish_def)
  have pub: "js_coalesce (get org ''public_repos'') (JNum (int (length repos)))
             = JNum (count_or (int (length repos)) (get org ''public_repos''))"
    and priv: "js_coalesce (get org ''total_private_repos'') (JNum 0)
             = JNum (count_or 0 (get org ''total_private_repos''))"
    using assms(2) by (simp_all add: org_object_def coalesce_count)
  obtain m where agg: "aggregate env w org repos = Inr m"
    using aggregate_ok [OF objs org, of env w] by simp
  have m: "publicRepos m = JNum (count_or (int (length repos)) (get org ''public_repos''))"
    "privateRepos m = JNum (count_or 0 (get org ''total_private_repos''))"
    "error m = None"
    using aggregate_fields(1,2,8) [OF objs org agg] pub priv by simp_all
  have metrics: "fetchOrgMetrics env w = Some (Inr m, [])"
    using assms(1,3) agg by (rule fetchOrgMetrics_succeeds)
  have sum: "js_add (publicRepos m) (privateRepos m) =
               JNum (count_or (int (length repos)) (get org ''public_repos'')
                     + count_or 0 (get org ''total_private_repos''))"
    using assms(5) by (simp add: m js_add_def double_safe)
  then have repos: "get (get (payload env m) ''metrics'') ''repos'' =
               JNum (count_or (int (length repos)) (get org ''public_repos'')
                     + count_or 0 (get org ''total_private_repos''))"
    by (simp add: payload_parts)
  have typed: "well_typed m"
    using assms(4,2) agg by (rule aggregate_well_typed)
  from main_writes [OF metrics assms(6,7)] obtain st' where
    "main env w st = Some (Inr (), st')"
    "contents (files st') (OUTPUT_FILE env) = Some (JSON_stringify (payload env m) 2)"
    by blast
  then have "main env w st = Some (Inr (), st')
           \<and> contents (files st') (OUTPUT_FILE env) = Some (document_text env m)"
    by (simp add: payload_document [OF typed])
  with metrics m sum repos show ?thesis by blast
qed

lemma three_pages_contract:
  "\<forall>r \<in> set (replicate 100 repo_a @ replicate 100 repo_b @ replicate 37 repo_c).
     repo_object three_pages r"
  by (auto simp: repo_object_def timestamp_def nullish_def three_pages_def example_dates_def
        example_repos)

theorem payload_repos_is_public_plus_private_witness:
  "org_object example_org
   \<and> get example_org ''public_repos'' = JNum 0
   \<and> (\<exists>m st'. fetchOrgMetrics example_env three_pages = Some (Inr m, [])
          \<and> get (get (payload example_env m) ''metrics'') ''repos'' = JNum 0
          \<and> main example_env three_pages fresh = Some (Inr (), st')
          \<and> contents (files st') (OUTPUT_FILE example_env) = Some (document_text example_env m))
   \<and> org_object bare_org
   \<and> get bare_org ''public_repos'' = JUndefined
   \<and> (\<exists>m st'. fetchOrgMetrics example_env one_page = Some (Inr m, [])
          \<and> get (get (payload example_env m) ''metrics'') ''repos'' = JNum 5
          \<and> main example_env one_page fresh = Some (Inr (), st')
          \<and> contents (files st') (OUTPUT_FILE example_env) = Some (document_text example_env m))"
proof -
  have org3: "org_object example_org" and zero: "get example_org ''public_repos'' = JNum 0"
    and priv3: "get example_org ''total_private_repos'' = JUndefined"
    by (simp_all add: org_object_def example_org_def)
  have bound3: "\<bar>count_or (int (length (replicate 100 repo_a @ replicate 100 repo_b @ replicate 37 repo_c)))
                    (get example_org ''public_repos'')
          + count_or 0 (get example_org ''total_private_repos'')\<bar> \<le> 9007199254740992"
    by (simp add: zero priv3)
  have org1: "org_object bare_org" and none: "get bare_org ''public_repos'' = JUndefined"
    and priv1: "get bare_org ''total_private_repos'' = JUndefined"
    by (simp_all add: org_object_def bare_org_def)
  have repos1: "\<forall>r \<in> set [repo_a, repo_b, repo_c, repo_d, repo_bare]. repo_object one_page r"
    using example_repos_contract by simp
  have bound1: "\<bar>count_or (int (length [repo_a, repo_b, repo_c, repo_d, repo_bare]))
                    (get bare_org ''public_repos'')
          + count_or 0 (get bare_org ''total_private_repos'')\<bar> \<le> 9007199254740992"
    by (simp add: none priv1)
  have a: "\<exists>m st'. fetchOrgMetrics example_env three_pages = Some (Inr m, [])
          \<and> get (get (payload example_env m) ''metrics'') ''repos'' = JNum 0
          \<and> main example_env three_pages fresh = Some (Inr (), st')
          \<and> contents (files st') (OUTPUT_FILE example_env) = Some (document_text example_env m)"
    using payload_repos_is_public_plus_private
            [OF three_pages_org org3 three_pages_listing three_pages_contract bound3 fresh_accepts]
    by (auto simp: zero priv3)
  have b: "\<exists>m st'. fetchOrgMetrics example_env one_page = Some (Inr m, [])
          \<and> get (get (payload example_env m) ''metrics'') ''repos'' = JNum 5
          \<and> main example_env one_page fresh = Some (Inr (), st')
          \<and> contents (files st') (OUTPUT_FILE example_env) = Some (document_text example_env m)"
    using payload_repos_is_public_plus_private
            [OF one_page_org org1 one_page_listing repos1 bound1 fresh_accepts]
    by (auto simp: none priv1)
  show ?thesis using org3 zero a org1 none b by blast
qed

end
